theory Spec2Isabelle
  imports Main "HOL-Library.Multiset"
begin

section \<open>Task-MGMT backend: a shallow embedding of the models and routes\<close>

text \<open>
  The development follows the Express/Mongoose backend of the task manager:
  the \<open>AuditLog\<close>, \<open>User\<close> and \<open>Task\<close> models and the route handlers
  \<open>POST /api/auth/login\<close>, \<open>PUT /api/tasks/:id\<close>, \<open>PUT /api/tasks/:id/status\<close>,
  \<open>PUT /api/users/:id\<close>, \<open>GET /api/audit/security\<close> and
  \<open>DELETE /api/audit/logs/cleanup\<close>.

  Conventions. A collection is the list of its documents in insertion order. An
  \<open>ObjectId\<close> is a natural number, a \<open>Date\<close> is an integer number of milliseconds.
  A JavaScript value that may be \<open>undefined\<close> or \<open>null\<close> is an \<open>option\<close>.
  Every \<open>Date.now()\<close> and \<open>new Date()\<close> of one request reads the same instant,
  passed in as \<open>now\<close>. An exception that reaches the handler's \<open>catch\<close> is the
  response \<open>500\<close>. The handlers behind \<open>authenticate\<close> are modelled for the
  \<open>req.user\<close> that middleware has let through. Reads and writes of the users and the
  tasks go through; the write of an audit entry is the one that may be refused by the
  storage, per request.
\<close>

type_synonym oid = nat
type_synonym time = int

text \<open>
  JSON values of a request body. \<open>JDate\<close> is a string in ISO 8601 format, given by the
  instant it denotes; \<open>JId\<close> is the string of 24 hexadecimal digits of an \<open>ObjectId\<close>;
  \<open>JStr\<close> is any other string. Numbers are whole. An object is the list of its keys and
  values, in the order of \<open>Object.keys\<close>.
\<close>

datatype jval =
    JNull
  | JBool bool
  | JNum int
  | JStr string
  | JDate time
  | JId oid
  | JList "jval list"

type_synonym obj = "(string \<times> jval) list"

text \<open>JavaScript's falsy values among the JSON values.\<close>

definition falsy :: "jval \<Rightarrow> bool" where
  "falsy v = (v = JNull \<or> v = JBool False \<or> v = JNum 0 \<or> v = JStr [])"

subsection \<open>The AuditLog model (backend/models/AuditLog.js)\<close>

text \<open>The argument of \<open>logAction\<close>: the object literal the caller builds.\<close>

record log_data =
  ld_user :: "oid option"
  ld_action :: "string option"
  ld_resource :: "string option"
  ld_resourceId :: "oid option"
  ld_details :: obj
  ld_ipAddress :: "string option"
  ld_userAgent :: "string option"
  ld_success :: "bool option"
  ld_severity :: "string option"
  ld_category :: "string option"

text \<open>A stored document of the collection (\<open>timestamps: true\<close> gives \<open>createdAt\<close>).\<close>

record audit_entry =
  ae_user :: oid
  ae_action :: string
  ae_resource :: string
  ae_resourceId :: "oid option"
  ae_details :: obj
  ae_ipAddress :: string
  ae_userAgent :: "string option"
  ae_sessionId :: "string option"
  ae_success :: bool
  ae_errorMessage :: "string option"
  ae_severity :: string
  ae_category :: string
  ae_createdAt :: time

definition action_enum :: "string list" where
  "action_enum =
     [''login'', ''logout'', ''failed_login'', ''password_change'', ''user_created'',
      ''user_updated'', ''user_deleted'', ''task_created'', ''task_updated'',
      ''task_deleted'', ''task_assigned'', ''task_completed'', ''task_approved'',
      ''task_rejected'', ''comment_added'', ''attachment_uploaded'',
      ''notification_sent'', ''report_generated'', ''role_changed'', ''team_updated'',
      ''settings_changed'', ''data_export'', ''system_access'']"

definition resource_enum :: "string list" where
  "resource_enum = [''user'', ''task'', ''notification'', ''report'', ''system'', ''auth'']"

definition severity_enum :: "string list" where
  "severity_enum = [''low'', ''medium'', ''high'', ''critical'']"

definition category_enum :: "string list" where
  "category_enum = [''security'', ''data'', ''system'', ''user_action'']"

text \<open>
  Mongoose's validators of the schema: \<open>required\<close> rejects \<open>null\<close>, \<open>undefined\<close>
  and, for a String path, the empty string; \<open>enum\<close> is checked on a value that is
  present (an absent one takes the path's default).
\<close>

definition required_enum :: "string list \<Rightarrow> string option \<Rightarrow> bool" where
  "required_enum vs x = (case x of None \<Rightarrow> False | Some s \<Rightarrow> s \<noteq> [] \<and> s \<in> set vs)"

definition optional_enum :: "string list \<Rightarrow> string option \<Rightarrow> bool" where
  "optional_enum vs x = (case x of None \<Rightarrow> True | Some s \<Rightarrow> s \<in> set vs)"

definition required_string :: "string option \<Rightarrow> bool" where
  "required_string x = (case x of None \<Rightarrow> False | Some s \<Rightarrow> s \<noteq> [])"

definition audit_validate :: "log_data \<Rightarrow> bool" where
  "audit_validate d \<longleftrightarrow>
     ld_user d \<noteq> None \<and>
     required_enum action_enum (ld_action d) \<and>
     required_enum resource_enum (ld_resource d) \<and>
     required_string (ld_ipAddress d) \<and>
     optional_enum severity_enum (ld_severity d) \<and>
     optional_enum category_enum (ld_category d)"

text \<open>\<open>new this(logData)\<close>: the schema's defaults fill the absent paths.\<close>

definition audit_doc :: "time \<Rightarrow> log_data \<Rightarrow> audit_entry" where
  "audit_doc now d =
     \<lparr> ae_user = the (ld_user d),
       ae_action = the (ld_action d),
       ae_resource = the (ld_resource d),
       ae_resourceId = ld_resourceId d,
       ae_details = ld_details d,
       ae_ipAddress = the (ld_ipAddress d),
       ae_userAgent = ld_userAgent d,
       ae_sessionId = None,
       ae_success = (case ld_success d of None \<Rightarrow> True | Some b \<Rightarrow> b),
       ae_errorMessage = None,
       ae_severity = (case ld_severity d of None \<Rightarrow> ''low'' | Some s \<Rightarrow> s),
       ae_category = (case ld_category d of None \<Rightarrow> ''user_action'' | Some s \<Rightarrow> s),
       ae_createdAt = now \<rparr>"

datatype save_error = ValidationError | StorageError

text \<open>
  \<open>auditLog.save()\<close>: validation first, then the write. \<open>io_ok\<close> says whether the
  storage accepts the write (a lost connection, a full disk); the document is appended
  only when both pass. \<open>audit_doc\<close> is reached only after \<open>audit_validate\<close>, so its
  \<open>the\<close> is never applied to \<open>None\<close>.
\<close>

definition audit_save ::
  "bool \<Rightarrow> time \<Rightarrow> audit_entry list \<Rightarrow> log_data \<Rightarrow> save_error + (audit_entry list \<times> audit_entry)"
where
  "audit_save io_ok now store d =
     (if \<not> audit_validate d then Inl ValidationError
      else if \<not> io_ok then Inl StorageError
      else Inr (store @ [audit_doc now d], audit_doc now d))"

text \<open>
  \<open>logAction\<close>: the \<open>try\<close> around construction and save; the \<open>catch\<close> logs to the
  console and returns \<open>null\<close>, so the result type has no error.
\<close>

definition logAction ::
  "bool \<Rightarrow> time \<Rightarrow> audit_entry list \<Rightarrow> log_data \<Rightarrow> audit_entry list \<times> audit_entry option"
where
  "logAction io_ok now store d =
     (case audit_save io_ok now store d of
        Inl e \<Rightarrow> (store, None)
      | Inr (store', a) \<Rightarrow> (store', Some a))"

subsection \<open>Query filters of the audit collection\<close>

text \<open>
  The MongoDB filter documents the audit routes use. A filter document is the
  conjunction of its clauses; \<open>$or\<close> takes a list of filter documents.
\<close>

datatype afilter =
    CategoryEq string
  | ActionEq string
  | ActionIn "string list"
  | SuccessEq bool
  | SeverityIn "string list"
  | SeverityNin "string list"
  | CreatedGte time
  | CreatedLt time
  | Or "afilter list list"

fun amatch :: "afilter \<Rightarrow> audit_entry \<Rightarrow> bool" where
  "amatch (CategoryEq c) e = (ae_category e = c)"
| "amatch (ActionEq a) e = (ae_action e = a)"
| "amatch (ActionIn as) e = (ae_action e \<in> set as)"
| "amatch (SuccessEq b) e = (ae_success e = b)"
| "amatch (SeverityIn ss) e = (ae_severity e \<in> set ss)"
| "amatch (SeverityNin ss) e = (ae_severity e \<notin> set ss)"
| "amatch (CreatedGte t) e = (t \<le> ae_createdAt e)"
| "amatch (CreatedLt t) e = (ae_createdAt e < t)"
| "amatch (Or ds) e = list_ex (\<lambda>d. list_all (\<lambda>f. amatch f e) d) ds"

definition matches :: "afilter list \<Rightarrow> audit_entry \<Rightarrow> bool" where
  "matches q e = list_all (\<lambda>f. amatch f e) q"

definition afind :: "afilter list \<Rightarrow> audit_entry list \<Rightarrow> audit_entry list" where
  "afind q store = filter (matches q) store"

definition countDocuments :: "afilter list \<Rightarrow> audit_entry list \<Rightarrow> nat" where
  "countDocuments q store = length (afind q store)"

definition deleteMany :: "afilter list \<Rightarrow> audit_entry list \<Rightarrow> audit_entry list \<times> nat" where
  "deleteMany q store = (filter (\<lambda>e. \<not> matches q e) store, length (afind q store))"

text \<open>
  \<open>.sort({ createdAt: -1 })\<close>: newest first. MongoDB leaves the order of documents with
  equal keys open; the model takes the stable order, and no theorem below depends on it.
\<close>

definition sort_newest :: "audit_entry list \<Rightarrow> audit_entry list" where
  "sort_newest es = sort_key (\<lambda>e. - ae_createdAt e) es"

subsection \<open>Collections\<close>

text \<open>
  \<open>findOne\<close> returns the first document that satisfies the filter; \<open>updateOne\<close>
  rewrites the first such document and leaves the collection alone when there is none.
\<close>

definition findOne :: "('a \<Rightarrow> bool) \<Rightarrow> 'a list \<Rightarrow> 'a option" where
  "findOne P xs = find P xs"

fun updateOne :: "('a \<Rightarrow> bool) \<Rightarrow> ('a \<Rightarrow> 'a) \<Rightarrow> 'a list \<Rightarrow> 'a list" where
  "updateOne P f [] = []"
| "updateOne P f (x # xs) = (if P x then f x # xs else x # updateOne P f xs)"

subsection \<open>The User model (unnamed/part_007)\<close>

datatype role = super_admin | manager | employee

record user =
  u_id :: oid
  u_name :: string
  u_email :: string
  u_password :: "string option"
  u_role :: role
  u_managerId :: "oid option"
  u_isActive :: bool
  u_lastLogin :: "time option"
  u_loginAttempts :: int
  u_lockUntil :: "time option"
  u_fcmToken :: "string option"
  u_phoneNumber :: "string option"
  u_department :: "string option"

text \<open>
  The process environment; a variable that is not set, or that \<open>parseInt\<close> reads as
  \<open>NaN\<close>, is \<open>None\<close>.
\<close>

record config =
  MAX_LOGIN_ATTEMPTS :: "int option"
  LOCKOUT_TIME :: "int option"

text \<open>\<open>parseInt(process.env.X) || d\<close>: \<open>NaN\<close> and \<open>0\<close> are falsy.\<close>

definition env_int :: "int option \<Rightarrow> int \<Rightarrow> int" where
  "env_int v d = (case v of None \<Rightarrow> d | Some n \<Rightarrow> if n = 0 then d else n)"

text \<open>The virtual \<open>isLocked\<close>.\<close>

definition isLocked :: "time \<Rightarrow> user \<Rightarrow> bool" where
  "isLocked now this = (case u_lockUntil this of None \<Rightarrow> False | Some l \<Rightarrow> l > now)"

text \<open>
  \<open>comparePassword\<close>; \<open>bcrypt.compare\<close> is a parameter, applied to the candidate and
  the stored hash.
\<close>

definition comparePassword :: "(string \<Rightarrow> string \<Rightarrow> bool) \<Rightarrow> user \<Rightarrow> string \<Rightarrow> bool" where
  "comparePassword bcrypt_compare this candidatePassword =
     (case u_password this of
        None \<Rightarrow> False
      | Some h \<Rightarrow> if h = [] then False else bcrypt_compare candidatePassword h)"

text \<open>
  \<open>incLoginAttempts\<close>: \<open>this\<close> is the document the request loaded, the result is the
  update that \<open>this.updateOne\<close> applies to the stored document.
\<close>

definition incLoginAttempts :: "config \<Rightarrow> time \<Rightarrow> user \<Rightarrow> user \<Rightarrow> user" where
  "incLoginAttempts cfg now this =
     (let maxAttempts = env_int (MAX_LOGIN_ATTEMPTS cfg) 5;
          lockoutTime = env_int (LOCKOUT_TIME cfg) 1800000
      in if (case u_lockUntil this of None \<Rightarrow> False | Some l \<Rightarrow> l < now)
         then (\<lambda>doc. doc\<lparr>u_lockUntil := None, u_loginAttempts := 1\<rparr>)
         else if u_loginAttempts this + 1 \<ge> maxAttempts \<and> \<not> isLocked now this
              then (\<lambda>doc. doc\<lparr>u_loginAttempts := u_loginAttempts doc + 1,
                               u_lockUntil := Some (now + lockoutTime)\<rparr>)
              else (\<lambda>doc. doc\<lparr>u_loginAttempts := u_loginAttempts doc + 1\<rparr>))"

text \<open>
  \<open>resetLoginAttempts\<close>: \<open>$unset\<close> of both paths; an absent \<open>loginAttempts\<close> reads as
  its default \<open>0\<close>.
\<close>

definition resetLoginAttempts :: "user \<Rightarrow> user" where
  "resetLoginAttempts doc = doc\<lparr>u_loginAttempts := 0, u_lockUntil := None\<rparr>"

record safe_user =
  su_id :: oid
  su_name :: string
  su_email :: string
  su_role :: role
  su_managerId :: "oid option"
  su_isActive :: bool
  su_lastLogin :: "time option"
  su_fcmToken :: "string option"
  su_phoneNumber :: "string option"
  su_department :: "string option"

definition toSafeObject :: "user \<Rightarrow> safe_user" where
  "toSafeObject this =
     \<lparr> su_id = u_id this, su_name = u_name this, su_email = u_email this,
       su_role = u_role this, su_managerId = u_managerId this,
       su_isActive = u_isActive this, su_lastLogin = u_lastLogin this,
       su_fcmToken = u_fcmToken this, su_phoneNumber = u_phoneNumber this,
       su_department = u_department this \<rparr>"

subsection \<open>The libraries\<close>

text \<open>
  What the handlers call in \<open>validator.js\<close>, \<open>express-validator\<close>, \<open>bcryptjs\<close> and
  Mongoose is not code of this repository; it is a parameter of the model.
  \<^item> \<open>isEmail\<close>, \<open>normalizeEmail\<close>, \<open>isMobilePhone\<close>, \<open>isISO8601\<close> and \<open>isFloat_min0\<close>
    (that is, \<open>isFloat({ min: 0 })\<close>) are the functions of \<open>validator.js\<close>, on strings;
  \<^item> \<open>validate P v\<close> and \<open>sanitize f v\<close> are what \<open>express-validator\<close> makes of a
    validator \<open>P\<close> and of a sanitizer \<open>f\<close> of \<open>validator.js\<close> on a field value \<open>v\<close> other
    than a \<open>JStr\<close> (the outcome of the check, and the value written back to the body);
  \<^item> \<open>parseDate\<close> is \<open>new Date(v)\<close>, \<open>None\<close> for an invalid date;
  \<^item> \<open>castString\<close>, \<open>castObjectId\<close> and \<open>castDate\<close> are Mongoose's casts to the type of
    a schema path, \<open>None\<close> for a \<open>CastError\<close>, and \<open>setOther k v\<close> says whether
    \<open>$set\<close> of the key \<open>k\<close> to \<open>v\<close> goes through when \<open>k\<close> names no path of the user
    record below;
  \<^item> \<open>bcrypt_compare\<close> is \<open>bcrypt.compare\<close>.
\<close>

record lib =
  isEmail :: "string \<Rightarrow> bool"
  normalizeEmail :: "string \<Rightarrow> string"
  isMobilePhone :: "string \<Rightarrow> bool"
  isISO8601 :: "string \<Rightarrow> bool"
  isFloat_min0 :: "string \<Rightarrow> bool"
  validate :: "(string \<Rightarrow> bool) \<Rightarrow> jval \<Rightarrow> bool"
  sanitize :: "(string \<Rightarrow> string) \<Rightarrow> jval \<Rightarrow> jval"
  parseDate :: "jval \<Rightarrow> time option"
  castString :: "jval \<Rightarrow> string option"
  castObjectId :: "jval \<Rightarrow> oid option"
  castDate :: "jval \<Rightarrow> time option"
  setOther :: "string \<Rightarrow> jval \<Rightarrow> bool"
  bcrypt_compare :: "string \<Rightarrow> string \<Rightarrow> bool"

subsection \<open>The request and the database\<close>

text \<open>
  What a handler reads from the request besides its body: the instant, the address
  (\<open>req.ip || req.connection.remoteAddress\<close>), the user agent, and whether the storage
  accepts the audit write issued by this request.
\<close>

record request =
  rq_now :: time
  rq_ip :: "string option"
  rq_userAgent :: "string option"
  rq_audit_ok :: bool

definition audit :: "request \<Rightarrow> audit_entry list \<Rightarrow> log_data \<Rightarrow> audit_entry list" where
  "audit rq store d = fst (logAction (rq_audit_ok rq) (rq_now rq) store d)"

text \<open>The object literal of a \<open>logAction\<close> call with only the common keys set.\<close>

definition log_base :: "request \<Rightarrow> oid option \<Rightarrow> string \<Rightarrow> string \<Rightarrow> log_data" where
  "log_base rq uid action resource =
     \<lparr> ld_user = uid, ld_action = Some action, ld_resource = Some resource,
       ld_resourceId = None, ld_details = [], ld_ipAddress = rq_ip rq,
       ld_userAgent = rq_userAgent rq, ld_success = None, ld_severity = None,
       ld_category = None \<rparr>"

subsection \<open>POST /api/auth/login (unnamed/part_011)\<close>

record login_req =
  lr_email :: string
  lr_password :: string
  lr_fcmToken :: "string option"

datatype login_resp =
    LoginOk safe_user
  | LoginValidationFailed
  | InvalidCredentials
  | AccountLocked
  | AccountInactive

definition failed_login_log :: "request \<Rightarrow> oid option \<Rightarrow> string \<Rightarrow> string \<Rightarrow> string \<Rightarrow> log_data" where
  "failed_login_log rq uid email reason severity =
     (log_base rq uid ''failed_login'' ''auth'')
       \<lparr> ld_details := [(''email'', JStr email), (''reason'', JStr reason)],
         ld_success := Some False,
         ld_severity := Some severity,
         ld_category := Some ''security'' \<rparr>"

definition login ::
  "lib \<Rightarrow> config \<Rightarrow> request \<Rightarrow> login_req \<Rightarrow> user list \<times> audit_entry list
     \<Rightarrow> login_resp \<times> user list \<times> audit_entry list"
where
  "login L cfg rq body db =
     (let users = fst db; logs = snd db; now = rq_now rq in
      if \<not> isEmail L (lr_email body) \<or> lr_password body = []
      then (LoginValidationFailed, users, logs)
      else
        let email = normalizeEmail L (lr_email body); password = lr_password body in
        case findOne (\<lambda>u. u_email u = email) users of
          None \<Rightarrow>
            (InvalidCredentials, users,
             audit rq logs (failed_login_log rq None email ''user_not_found'' ''medium''))
        | Some user \<Rightarrow>
            if isLocked now user
            then (AccountLocked, users,
                  audit rq logs
                    (failed_login_log rq (Some (u_id user)) email ''account_locked'' ''high''))
            else if \<not> u_isActive user
            then (AccountInactive, users,
                  audit rq logs
                    (failed_login_log rq (Some (u_id user)) email ''account_inactive'' ''medium''))
            else if \<not> comparePassword (bcrypt_compare L) user password
            then (InvalidCredentials,
                  updateOne (\<lambda>d. u_id d = u_id user) (incLoginAttempts cfg now user) users,
                  audit rq logs
                    (failed_login_log rq (Some (u_id user)) email ''invalid_password'' ''medium''))
            else
              let users1 =
                    (if u_loginAttempts user > 0
                     then updateOne (\<lambda>d. u_id d = u_id user) resetLoginAttempts users
                     else users);
                  fcm = (case lr_fcmToken body of
                           None \<Rightarrow> u_fcmToken user
                         | Some t \<Rightarrow> if t = [] then u_fcmToken user else Some t);
                  user' = user\<lparr>u_lastLogin := Some now, u_fcmToken := fcm\<rparr>;
                  users2 = updateOne (\<lambda>d. u_id d = u_id user)
                             (\<lambda>d. d\<lparr>u_lastLogin := Some now, u_fcmToken := fcm\<rparr>) users1
              in (LoginOk (toSafeObject user'), users2,
                  audit rq logs
                    ((log_base rq (Some (u_id user)) ''login'' ''auth'')
                       \<lparr> ld_details := [(''email'', JStr email)],
                         ld_category := Some ''security'' \<rparr>)))"

text \<open>A sequence of login requests, each served after the one before it.\<close>

fun login_seq ::
  "lib \<Rightarrow> config \<Rightarrow> (request \<times> login_req) list \<Rightarrow> user list \<times> audit_entry list
     \<Rightarrow> login_resp list \<times> user list \<times> audit_entry list"
where
  "login_seq L cfg [] db = ([], db)"
| "login_seq L cfg (a # rest) db =
     (case login L cfg (fst a) (snd a) db of
        (r, db') \<Rightarrow> (case login_seq L cfg rest db' of (rs, db'') \<Rightarrow> (r # rs, db'')))"

subsection \<open>express-validator\<close>

text \<open>
  \<open>trim()\<close> strips white space from both ends (the ASCII white space characters, in this
  byte model of strings); \<open>isLength\<close> counts characters.
\<close>

definition is_space :: "char \<Rightarrow> bool" where
  "is_space c = (c \<in> set [CHR '' '', CHR 0x09, CHR 0x0A, CHR 0x0B, CHR 0x0C, CHR 0x0D])"

definition trim :: "string \<Rightarrow> string" where
  "trim s = rev (dropWhile is_space (rev (dropWhile is_space s)))"

text \<open>\<open>body(k).optional().trim().isLength({ min, max })\<close> on a field that may be absent.\<close>

definition opt_trim_length :: "nat \<Rightarrow> nat \<Rightarrow> string option \<Rightarrow> bool" where
  "opt_trim_length lo hi x =
     (case x of None \<Rightarrow> True | Some s \<Rightarrow> lo \<le> length (trim s) \<and> length (trim s) \<le> hi)"

text \<open>The HTTP answers of the handlers, by status code.\<close>

datatype 'a response =
    Ok200 'a
  | BadRequest400
  | Forbidden403
  | NotFound404
  | ServerError500

subsection \<open>The Task model (unnamed/part_008)\<close>

datatype status = pending | in_progress | completed | approved | rejected

definition status_of_string :: "string \<Rightarrow> status option" where
  "status_of_string s =
     (if s = ''pending'' then Some pending
      else if s = ''in_progress'' then Some in_progress
      else if s = ''completed'' then Some completed
      else if s = ''approved'' then Some approved
      else if s = ''rejected'' then Some rejected
      else None)"

fun string_of_status :: "status \<Rightarrow> string" where
  "string_of_status pending = ''pending''"
| "string_of_status in_progress = ''in_progress''"
| "string_of_status completed = ''completed''"
| "string_of_status approved = ''approved''"
| "string_of_status rejected = ''rejected''"

record history_entry =
  he_status :: status
  he_changedBy :: oid
  he_changedAt :: time
  he_comment :: "string option"

text \<open>
  The paths of the schema the routes below read or write. Hours are a \<open>Number\<close>; they
  are taken to be whole, their value plays no role.
\<close>

record task =
  t_id :: oid
  t_title :: string
  t_description :: string
  t_priority :: string
  t_status :: status
  t_assignedBy :: oid
  t_assignedTo :: oid
  t_deadline :: time
  t_completedAt :: "time option"
  t_approvedAt :: "time option"
  t_approvedBy :: "oid option"
  t_tags :: "string list"
  t_estimatedHours :: "int option"
  t_actualHours :: "int option"
  t_isArchived :: bool
  t_statusHistory :: "history_entry list"
  t_rejectionReason :: "string option"

text \<open>
  The \<open>pre('save')\<close> hook of an existing document (\<open>isNew\<close> is false). Mongoose marks
  \<open>status\<close> modified when the assigned value differs from the one loaded, \<open>loaded\<close>
  here. \<open>changedBy\<close> and \<open>comment\<close> are \<open>this._statusChangedBy\<close> and
  \<open>this._statusChangeComment\<close>; a \<open>Date\<close> is truthy, so \<open>!this.completedAt\<close> tests
  for \<open>null\<close>.
\<close>

definition pre_save :: "time \<Rightarrow> status \<Rightarrow> oid option \<Rightarrow> string option \<Rightarrow> task \<Rightarrow> task" where
  "pre_save now loaded changedBy comment this =
     (let modified = (t_status this \<noteq> loaded);
          t1 = (if modified
                then this\<lparr>t_statusHistory := t_statusHistory this @
                       [\<lparr> he_status = t_status this,
                          he_changedBy = (case changedBy of Some c \<Rightarrow> c | None \<Rightarrow> t_assignedBy this),
                          he_changedAt = now,
                          he_comment = (case comment of
                                          None \<Rightarrow> None
                                        | Some c \<Rightarrow> if c = [] then None else Some c) \<rparr>]\<rparr>
                else this);
          t2 = (if modified \<and> t_status t1 = completed \<and> t_completedAt t1 = None
                then t1\<lparr>t_completedAt := Some now\<rparr> else t1);
          t3 = (if modified \<and> t_status t2 = approved \<and> t_approvedAt t2 = None
                then t2\<lparr>t_approvedAt := Some now\<rparr> else t2)
      in t3)"

text \<open>The method \<open>updateStatus\<close>, with the \<open>save()\<close> it ends in.\<close>

definition updateStatus :: "time \<Rightarrow> status \<Rightarrow> oid \<Rightarrow> string option \<Rightarrow> task \<Rightarrow> task" where
  "updateStatus now newStatus changedBy comment this =
     (let t1 = this\<lparr>t_status := newStatus\<rparr>;
          t2 = (if newStatus = approved
                then t1\<lparr>t_approvedBy := Some changedBy, t_approvedAt := Some now\<rparr>
                else t1)
      in pre_save now (t_status this) (Some changedBy) comment t2)"

subsection \<open>Populated references\<close>

text \<open>
  \<open>.populate(path, 'name email role')\<close> replaces the id by the referenced user with the
  selected fields and \<open>_id\<close>; a field that was not selected reads \<open>undefined\<close>, and a
  reference to no user reads \<open>null\<close>.
\<close>

record ref_user =
  r_id :: oid
  r_name :: "string option"
  r_email :: "string option"
  r_role :: "role option"
  r_managerId :: "oid option"

definition populate :: "string list \<Rightarrow> user list \<Rightarrow> oid \<Rightarrow> ref_user option" where
  "populate sel users i =
     (case findOne (\<lambda>u. u_id u = i) users of
        None \<Rightarrow> None
      | Some u \<Rightarrow>
          Some \<lparr> r_id = u_id u,
                 r_name = (if ''name'' \<in> set sel then Some (u_name u) else None),
                 r_email = (if ''email'' \<in> set sel then Some (u_email u) else None),
                 r_role = (if ''role'' \<in> set sel then Some (u_role u) else None),
                 r_managerId = (if ''managerId'' \<in> set sel then u_managerId u else None) \<rparr>)"

text \<open>
  \<open>req.user.role === 'manager' && task.assignedTo.managerId?.toString() ===
  req.user._id.toString()\<close>, on the populated assignee.
\<close>

definition manages :: "user \<Rightarrow> ref_user \<Rightarrow> bool" where
  "manages actor assignee \<longleftrightarrow> u_role actor = manager \<and> r_managerId assignee = Some (u_id actor)"

text \<open>\<open>save()\<close> of a loaded task: the stored document with its id is replaced.\<close>

definition save_task :: "task \<Rightarrow> task list \<Rightarrow> task list" where
  "save_task t tasks = updateOne (\<lambda>d. t_id d = t_id t) (\<lambda>d. t) tasks"

subsection \<open>PUT /api/tasks/:id/status (backend/routes/tasks.js)\<close>

record status_body =
  sb_status :: string
  sb_comment :: "string option"
  sb_rejectionReason :: "string option"

text \<open>
  The permission check. The populated references are read as the handler reads them, left
  to right with \<open>||\<close> and \<open>&&\<close> cutting the evaluation short; reading \<open>_id\<close> or
  \<open>managerId\<close> of a \<open>null\<close> reference throws a \<open>TypeError\<close>, the result \<open>None\<close>.
\<close>

definition ref_is :: "ref_user option \<Rightarrow> user \<Rightarrow> bool option" where
  "ref_is r actor = (case r of None \<Rightarrow> None | Some x \<Rightarrow> Some (r_id x = u_id actor))"

definition manager_of :: "user \<Rightarrow> ref_user option \<Rightarrow> bool option" where
  "manager_of actor assignedTo =
     (if u_role actor = manager
      then (case assignedTo of None \<Rightarrow> None | Some x \<Rightarrow> Some (manages actor x))
      else Some False)"

text \<open>\<open>a || b\<close> on checks that may throw: \<open>b\<close> is evaluated only when \<open>a\<close> is false.\<close>

definition or_else :: "bool option \<Rightarrow> bool option \<Rightarrow> bool option" where
  "or_else a b = (case a of None \<Rightarrow> None | Some x \<Rightarrow> if x then Some True else b)"

definition hasPermission :: "status \<Rightarrow> user \<Rightarrow> ref_user option \<Rightarrow> ref_user option \<Rightarrow> bool option" where
  "hasPermission st actor assignedBy assignedTo =
     (if st = in_progress \<or> st = completed
      then ref_is assignedTo actor
      else if st = approved \<or> st = rejected
      then or_else (Some (u_role actor = super_admin))
             (or_else (ref_is assignedBy actor) (manager_of actor assignedTo))
      else if st = pending
      then or_else (Some (u_role actor = super_admin))
             (or_else (ref_is assignedBy actor)
                (or_else (ref_is assignedTo actor) (manager_of actor assignedTo)))
      else Some False)"

text \<open>
  The reference whose \<open>_id\<close> the handler reads for the notification after the save:
  the assigner for \<open>in_progress\<close> and \<open>completed\<close>, the assignee for \<open>approved\<close> and
  \<open>rejected\<close>, none for \<open>pending\<close>.
\<close>

definition notified_ref_ok :: "status \<Rightarrow> ref_user option \<Rightarrow> ref_user option \<Rightarrow> bool" where
  "notified_ref_ok st assignedBy assignedTo =
     (if st = in_progress \<or> st = completed then assignedBy \<noteq> None
      else if st = approved \<or> st = rejected then assignedTo \<noteq> None
      else True)"

text \<open>
  \<open>task.statusHistory[task.statusHistory.length - 2]?.status || 'pending'\<close>, the
  \<open>previousStatus\<close> of the audit entry.
\<close>

definition previousStatus :: "task \<Rightarrow> string" where
  "previousStatus t =
     (let h = t_statusHistory t in
      if 2 \<le> length h then string_of_status (he_status (h ! (length h - 2))) else ''pending'')"

text \<open>
  The handler, for the authenticated \<open>req.user\<close>. The notification it sends after the
  save goes to the notification gateway, which catches its own errors; only the read of
  the recipient's \<open>_id\<close> is kept. The answer carries the saved task.
\<close>

definition put_status ::
  "request \<Rightarrow> user \<Rightarrow> oid \<Rightarrow> status_body \<Rightarrow> user list \<times> task list \<times> audit_entry list
     \<Rightarrow> task response \<times> task list \<times> audit_entry list"
where
  "put_status rq actor taskId body db =
     (let users = fst db; tasks = fst (snd db); logs = snd (snd db); now = rq_now rq in
      case status_of_string (sb_status body) of
        None \<Rightarrow> (BadRequest400, tasks, logs)
      | Some st \<Rightarrow>
          if opt_trim_length 0 200 (sb_comment body) \<and>
             opt_trim_length 0 500 (sb_rejectionReason body)
          then
            let comment = map_option trim (sb_comment body);
                rejectionReason = map_option trim (sb_rejectionReason body)
            in
            case findOne (\<lambda>t. t_id t = taskId) tasks of
              None \<Rightarrow> (NotFound404, tasks, logs)
            | Some task \<Rightarrow>
                let assignedBy = populate [''name'', ''email'', ''role''] users (t_assignedBy task);
                    assignedTo = populate [''name'', ''email'', ''role''] users (t_assignedTo task)
                in
                case hasPermission st actor assignedBy assignedTo of
                  None \<Rightarrow> (ServerError500, tasks, logs)
                | Some False \<Rightarrow> (Forbidden403, tasks, logs)
                | Some True \<Rightarrow>
                    let task1 =
                          (case rejectionReason of
                             None \<Rightarrow> task
                           | Some r \<Rightarrow>
                               if st = rejected \<and> r \<noteq> []
                               then task\<lparr>t_rejectionReason := Some r\<rparr> else task);
                        task2 = updateStatus now st (u_id actor) comment task1;
                        tasks' = save_task task2 tasks
                    in
                    if notified_ref_ok st assignedBy assignedTo
                    then (Ok200 task2, tasks',
                          audit rq logs
                            ((log_base rq (Some (u_id actor)) (''task_'' @ sb_status body) ''task'')
                               \<lparr> ld_resourceId := Some (t_id task2),
                                 ld_details :=
                                   [(''taskTitle'', JStr (t_title task2)),
                                    (''previousStatus'', JStr (previousStatus task2)),
                                    (''newStatus'', JStr (sb_status body))] @
                                   (case comment of None \<Rightarrow> [] | Some c \<Rightarrow> [(''comment'', JStr c)]),
                                 ld_category := Some ''data'' \<rparr>))
                    else (ServerError500, tasks', logs)
          else (BadRequest400, tasks, logs))"

subsection \<open>PUT /api/tasks/:id (backend/routes/tasks.js)\<close>

text \<open>
  A validator of a route runs on the value of its key when the body has the key
  (\<open>optional()\<close>), after the sanitizers before it in the chain. On a \<open>JStr\<close> it is the
  function of \<open>validator.js\<close>; what \<open>express-validator\<close> makes of another value is the
  library's (\<open>validate\<close>, \<open>sanitize\<close>), but for the cases written out.
\<close>

definition v_pred :: "lib \<Rightarrow> (string \<Rightarrow> bool) \<Rightarrow> jval option \<Rightarrow> bool" where
  "v_pred L P x = (case x of None \<Rightarrow> True | Some (JStr s) \<Rightarrow> P s | Some v \<Rightarrow> validate L P v)"

definition sanitize_value :: "lib \<Rightarrow> (string \<Rightarrow> string) \<Rightarrow> jval \<Rightarrow> jval" where
  "sanitize_value L f v = (case v of JStr s \<Rightarrow> JStr (f s) | _ \<Rightarrow> sanitize L f v)"

text \<open>\<open>trim().isLength({ min: lo, max: hi })\<close>.\<close>

definition v_trim_length :: "lib \<Rightarrow> nat \<Rightarrow> nat \<Rightarrow> jval option \<Rightarrow> bool" where
  "v_trim_length L lo hi x =
     v_pred L (\<lambda>s. lo \<le> length s \<and> length s \<le> hi) (map_option (sanitize_value L trim) x)"

definition v_isISO8601 :: "lib \<Rightarrow> jval option \<Rightarrow> bool" where
  "v_isISO8601 L x =
     (case x of None \<Rightarrow> True | Some (JDate d) \<Rightarrow> True | Some v \<Rightarrow> v_pred L (isISO8601 L) (Some v))"

definition v_isIn :: "lib \<Rightarrow> string list \<Rightarrow> jval option \<Rightarrow> bool" where
  "v_isIn L vs x = v_pred L (\<lambda>s. s \<in> set vs) x"

text \<open>\<open>isFloat({ min: 0 })\<close>: a number is checked as its decimal numeral.\<close>

definition v_isFloat_min0 :: "lib \<Rightarrow> jval option \<Rightarrow> bool" where
  "v_isFloat_min0 L x =
     (case x of None \<Rightarrow> True | Some (JNum n) \<Rightarrow> 0 \<le> n | Some v \<Rightarrow> v_pred L (isFloat_min0 L) (Some v))"

text \<open>\<open>isArray()\<close> is \<open>Array.isArray\<close> on the value itself.\<close>

definition v_isArray :: "jval option \<Rightarrow> bool" where
  "v_isArray x = (case x of None \<Rightarrow> True | Some (JList vs) \<Rightarrow> True | Some _ \<Rightarrow> False)"

definition priority_enum :: "string list" where
  "priority_enum = [''low'', ''medium'', ''high'', ''urgent'']"

definition task_update_valid :: "lib \<Rightarrow> obj \<Rightarrow> bool" where
  "task_update_valid L body \<longleftrightarrow>
     v_trim_length L 3 100 (map_of body ''title'') \<and>
     v_trim_length L 10 1000 (map_of body ''description'') \<and>
     v_isISO8601 L (map_of body ''deadline'') \<and>
     v_isIn L priority_enum (map_of body ''priority'') \<and>
     v_isFloat_min0 L (map_of body ''estimatedHours'') \<and>
     v_isFloat_min0 L (map_of body ''actualHours'') \<and>
     v_isArray (map_of body ''tags'')"

text \<open>
  A sanitizer rewrites the value of its key in the body: \<open>trim()\<close> on \<open>title\<close> and
  \<open>description\<close> here.
\<close>

definition sanitize_trim :: "lib \<Rightarrow> string list \<Rightarrow> obj \<Rightarrow> obj" where
  "sanitize_trim L ks body =
     map (\<lambda>kv. if fst kv \<in> set ks then (fst kv, sanitize_value L trim (snd kv)) else kv) body"

text \<open>
  \<open>Object.keys(updates).forEach(key => { task[key] = updates[key] })\<close> assigns every key
  of the body to the loaded Mongoose document, and \<open>task.save()\<close> validates the document
  before the \<open>pre('save')\<close> hook runs. Both are Mongoose's, a parameter \<open>assign\<close> of the
  handler: \<open>assign updates task\<close> is \<open>None\<close> when the assignment or the save throws, and
  otherwise the document after the assignment, with the two properties \<open>_statusChangedBy\<close>
  and \<open>_statusChangeComment\<close> the hook reads (\<open>None\<close> when falsy).
\<close>

record assigned =
  as_task :: task
  as_statusChangedBy :: "oid option"
  as_statusChangeComment :: "string option"

text \<open>
  \<open>canEdit\<close>, and the test that the caller is an employee on a task assigned to them.
\<close>

definition canEdit :: "user \<Rightarrow> ref_user option \<Rightarrow> ref_user option \<Rightarrow> bool option" where
  "canEdit actor assignedBy assignedTo =
     or_else (Some (u_role actor = super_admin))
       (or_else (ref_is assignedBy actor) (manager_of actor assignedTo))"

definition employee_on_own_task :: "user \<Rightarrow> ref_user option \<Rightarrow> bool option" where
  "employee_on_own_task actor assignedTo =
     (if u_role actor = employee then ref_is assignedTo actor else Some False)"

definition hasUnauthorizedFields :: "string list \<Rightarrow> obj \<Rightarrow> bool" where
  "hasUnauthorizedFields allowedFields updates =
     list_ex (\<lambda>key. key \<notin> set allowedFields) (map fst updates)"

text \<open>\<open>updates.deadline && new Date(updates.deadline) <= new Date()\<close>.\<close>

definition deadline_passed :: "lib \<Rightarrow> time \<Rightarrow> obj \<Rightarrow> bool" where
  "deadline_passed L now updates =
     (case map_of updates ''deadline'' of
        None \<Rightarrow> False
      | Some (JDate d) \<Rightarrow> d \<le> now
      | Some v \<Rightarrow> \<not> falsy v \<and> (case parseDate L v of None \<Rightarrow> False | Some d \<Rightarrow> d \<le> now))"

text \<open>
  The handler, for the authenticated \<open>req.user\<close>. The hook of the model runs on the
  assigned document; \<open>isModified('status')\<close> there compares with the status loaded.
\<close>

definition put_task ::
  "lib \<Rightarrow> (obj \<Rightarrow> task \<Rightarrow> assigned option) \<Rightarrow> request \<Rightarrow> user \<Rightarrow> oid \<Rightarrow> obj
     \<Rightarrow> user list \<times> task list \<times> audit_entry list
     \<Rightarrow> task response \<times> task list \<times> audit_entry list"
where
  "put_task L assign rq actor taskId body db =
     (let users = fst db; tasks = fst (snd db); logs = snd (snd db); now = rq_now rq in
      if task_update_valid L body
      then
        let updates = sanitize_trim L [''title'', ''description''] body in
        case findOne (\<lambda>t. t_id t = taskId) tasks of
          None \<Rightarrow> (NotFound404, tasks, logs)
        | Some task \<Rightarrow>
            let assignedBy = populate [''name'', ''email'', ''role''] users (t_assignedBy task);
                assignedTo = populate [''name'', ''email'', ''role''] users (t_assignedTo task)
            in
            case canEdit actor assignedBy assignedTo of
              None \<Rightarrow> (ServerError500, tasks, logs)
            | Some False \<Rightarrow> (Forbidden403, tasks, logs)
            | Some True \<Rightarrow>
                (case employee_on_own_task actor assignedTo of
                   None \<Rightarrow> (ServerError500, tasks, logs)
                 | Some own \<Rightarrow>
                     if own \<and> hasUnauthorizedFields [''actualHours''] updates
                     then (Forbidden403, tasks, logs)
                     else if deadline_passed L now updates
                     then (BadRequest400, tasks, logs)
                     else
                       (case assign updates task of
                          None \<Rightarrow> (ServerError500, tasks, logs)
                        | Some a \<Rightarrow>
                            let task2 = pre_save now (t_status task) (as_statusChangedBy a)
                                          (as_statusChangeComment a) (as_task a) in
                            (Ok200 task2, updateOne (\<lambda>d. t_id d = t_id task) (\<lambda>d. task2) tasks,
                             audit rq logs
                               ((log_base rq (Some (u_id actor)) ''task_updated'' ''task'')
                                  \<lparr> ld_resourceId := Some (t_id task2),
                                    ld_details :=
                                      [(''updatedFields'', JList (map (\<lambda>kv. JStr (fst kv)) updates)),
                                       (''taskTitle'', JStr (t_title task2))],
                                    ld_category := Some ''data'' \<rparr>))))
      else (BadRequest400, tasks, logs))"

subsection \<open>The middleware authorize (unnamed/part_009)\<close>

fun string_of_role :: "role \<Rightarrow> string" where
  "string_of_role super_admin = ''super_admin''"
| "string_of_role manager = ''manager''"
| "string_of_role employee = ''employee''"

text \<open>
  \<open>authorize(...roles)\<close> for the authenticated \<open>req.user\<close>: whether the handler runs,
  and the audit collection after the entry a refusal records. \<open>url\<close> and \<open>method\<close>
  are \<open>req.originalUrl\<close> and \<open>req.method\<close>.
\<close>

definition authorize ::
  "role list \<Rightarrow> string \<Rightarrow> string \<Rightarrow> request \<Rightarrow> user \<Rightarrow> audit_entry list \<Rightarrow> bool \<times> audit_entry list"
where
  "authorize roles url method rq actor logs =
     (if u_role actor \<in> set roles then (True, logs)
      else (False,
            audit rq logs
              ((log_base rq (Some (u_id actor)) ''system_access'' ''system'')
                 \<lparr> ld_details :=
                     [(''attempted_role'', JList (map (\<lambda>r. JStr (string_of_role r)) roles)),
                      (''user_role'', JStr (string_of_role (u_role actor))),
                      (''endpoint'', JStr url),
                      (''method'', JStr method)],
                   ld_success := Some False,
                   ld_severity := Some ''medium'',
                   ld_category := Some ''security'' \<rparr>)))"

subsection \<open>Query-string parameters\<close>

text \<open>
  A parameter of the query string: absent, present but not the decimal form of an
  integer, or the integer it denotes.
\<close>

datatype qparam = QAbsent | QMalformed | QInt int

text \<open>\<open>query(k).optional().isInt({ min, max })\<close>; without \<open>max\<close> the bound is open.\<close>

definition q_isInt :: "int \<Rightarrow> int option \<Rightarrow> qparam \<Rightarrow> bool" where
  "q_isInt lo hi q =
     (case q of
        QAbsent \<Rightarrow> True
      | QMalformed \<Rightarrow> False
      | QInt n \<Rightarrow> lo \<le> n \<and> (case hi of None \<Rightarrow> True | Some h \<Rightarrow> n \<le> h))"

text \<open>\<open>parseInt(req.query.k) || d\<close>.\<close>

definition q_parseInt_or :: "qparam \<Rightarrow> int \<Rightarrow> int" where
  "q_parseInt_or q d = (case q of QInt n \<Rightarrow> if n = 0 then d else n | _ \<Rightarrow> d)"

subsection \<open>The static getSecurityLogs (backend/models/AuditLog.js)\<close>

definition security_actions :: "string list" where
  "security_actions = [''login'', ''logout'', ''failed_login'', ''password_change'']"

definition getSecurityLogs :: "nat \<Rightarrow> audit_entry list \<Rightarrow> audit_entry list" where
  "getSecurityLogs limit store =
     take limit
       (sort_newest
          (afind [Or [[CategoryEq ''security''],
                      [ActionIn security_actions],
                      [SuccessEq False]]] store))"

subsection \<open>GET /api/audit/security (unnamed/part_010)\<close>

definition security_filter :: "time \<Rightarrow> afilter list" where
  "security_filter since =
     [Or [[CategoryEq ''security''],
          [ActionIn security_actions],
          [SuccessEq False],
          [SeverityIn [''high'', ''critical'']]],
      CreatedGte since]"

record security_page =
  sp_logs :: "audit_entry list"
  sp_current :: int
  sp_pages :: int
  sp_total :: nat
  sp_limit :: int
  sp_timeframe :: string

text \<open>The decimal form of a number, for the template string \<open>`${hours} hours`\<close>.\<close>

fun decimal :: "nat \<Rightarrow> string" where
  "decimal n =
     (if n < 10 then [char_of (48 + n)]
      else decimal (n div 10) @ [char_of (48 + n mod 10)])"

declare decimal.simps [simp del]

definition timeframe :: "int \<Rightarrow> string" where
  "timeframe hours = decimal (nat hours) @ '' hours''"

text \<open>\<open>Math.ceil(total / limit)\<close> for a positive \<open>limit\<close>.\<close>

definition ceil_div :: "int \<Rightarrow> int \<Rightarrow> int" where
  "ceil_div a b = - ((- a) div b)"

text \<open>
  The handler. The two aggregations of the answer (the summary by action, the failed
  logins by address) are reports beside the list and are left out.
\<close>

definition get_security ::
  "request \<Rightarrow> user \<Rightarrow> qparam \<Rightarrow> qparam \<Rightarrow> qparam \<Rightarrow> audit_entry list
     \<Rightarrow> security_page response \<times> audit_entry list"
where
  "get_security rq actor qpage qlimit qhours store =
     (case authorize [super_admin] ''/api/audit/security'' ''GET'' rq actor store of
        (False, store') \<Rightarrow> (Forbidden403, store')
      | (True, store') \<Rightarrow>
          if q_isInt 1 None qpage \<and> q_isInt 1 (Some 100) qlimit \<and> q_isInt 1 (Some 168) qhours
          then
            let page = q_parseInt_or qpage 1;
                limit = q_parseInt_or qlimit 50;
                skip = (page - 1) * limit;
                hours = q_parseInt_or qhours 24;
                since = rq_now rq - hours * 60 * 60 * 1000;
                securityLogs =
                  take (nat limit) (drop (nat skip) (sort_newest (afind (security_filter since) store')));
                total = countDocuments (security_filter since) store'
            in (Ok200 \<lparr> sp_logs = securityLogs, sp_current = page,
                         sp_pages = ceil_div (int total) limit, sp_total = total,
                         sp_limit = limit, sp_timeframe = timeframe hours \<rparr>,
                audit rq store'
                  ((log_base rq (Some (u_id actor)) ''system_access'' ''system'')
                     \<lparr> ld_details :=
                         [(''endpoint'', JStr ''security_audit''),
                          (''timeframe'', JStr (timeframe hours)),
                          (''totalResults'', JNum (int total))],
                       ld_category := Some ''security'' \<rparr>))
          else (BadRequest400, store'))"

subsection \<open>DELETE /api/audit/logs/cleanup (unnamed/part_010)\<close>

definition cleanup_filter :: "time \<Rightarrow> afilter list" where
  "cleanup_filter cutoffDate = [CreatedLt cutoffDate, SeverityNin [''high'', ''critical'']]"

record cleanup_result =
  cr_logsDeleted :: nat
  cr_cutoffDate :: time
  cr_retentionDays :: int

definition cleanup_log :: "request \<Rightarrow> user \<Rightarrow> time \<Rightarrow> nat \<Rightarrow> int \<Rightarrow> log_data" where
  "cleanup_log rq actor cutoffDate deletedCount days =
     (log_base rq (Some (u_id actor)) ''data_export'' ''system'')
       \<lparr> ld_details :=
           [(''action'', JStr ''audit_log_cleanup''),
            (''cutoffDate'', JDate cutoffDate),
            (''logsDeleted'', JNum (int deletedCount)),
            (''retentionDays'', JNum days)],
         ld_severity := Some ''medium'',
         ld_category := Some ''system'' \<rparr>"

definition delete_cleanup ::
  "request \<Rightarrow> user \<Rightarrow> qparam \<Rightarrow> audit_entry list \<Rightarrow> cleanup_result response \<times> audit_entry list"
where
  "delete_cleanup rq actor qdays store =
     (case authorize [super_admin] ''/api/audit/logs/cleanup'' ''DELETE'' rq actor store of
        (False, store') \<Rightarrow> (Forbidden403, store')
      | (True, store') \<Rightarrow>
          if q_isInt 30 (Some 365) qdays
          then
            let days = q_parseInt_or qdays 90;
                cutoffDate = rq_now rq - days * 24 * 60 * 60 * 1000;
                logsToDelete = countDocuments (cleanup_filter cutoffDate) store';
                deleteResult = deleteMany (cleanup_filter cutoffDate) store'
            in (Ok200 \<lparr> cr_logsDeleted = snd deleteResult, cr_cutoffDate = cutoffDate,
                         cr_retentionDays = days \<rparr>,
                audit rq (fst deleteResult)
                  (cleanup_log rq actor cutoffDate (snd deleteResult) days))
          else (BadRequest400, store'))"
subsection \<open>The middleware authorizeTeamAccess (unnamed/part_009)\<close>

text \<open>
  \<open>req.params.userId || req.body.assignedTo || req.query.userId\<close>. The routes below
  name their path parameter \<open>id\<close>, so \<open>req.params.userId\<close> is \<open>undefined\<close>. The
  result is no target, the string of an id, or another truthy value.
\<close>

datatype target = NoTarget | Target oid | OtherTarget jval

definition targetUserId :: "obj \<Rightarrow> oid option \<Rightarrow> target" where
  "targetUserId body query_userId =
     (case map_of body ''assignedTo'' of
        Some (JId i) \<Rightarrow> Target i
      | Some v \<Rightarrow>
          if falsy v
          then (case query_userId of None \<Rightarrow> NoTarget | Some i \<Rightarrow> Target i)
          else OtherTarget v
      | None \<Rightarrow> (case query_userId of None \<Rightarrow> NoTarget | Some i \<Rightarrow> Target i))"

text \<open>
  The middleware: \<open>None\<close> is \<open>next()\<close>, otherwise the answer it sends. \<open>findById\<close> on
  a value that does not cast to an \<open>ObjectId\<close> throws, and the \<open>catch\<close> answers \<open>500\<close>.
  A target that is not the string of an id differs from \<open>req.user._id.toString()\<close>.
\<close>

definition team_member :: "user list \<Rightarrow> user \<Rightarrow> oid \<Rightarrow> bool \<Rightarrow> unit response option" where
  "team_member users actor i self =
     (case findOne (\<lambda>u. u_id u = i) users of
        None \<Rightarrow> Some NotFound404
      | Some targetUser \<Rightarrow>
          if u_managerId targetUser \<noteq> Some (u_id actor) \<and> \<not> self
          then Some Forbidden403 else None)"

definition authorizeTeamAccess ::
  "lib \<Rightarrow> user list \<Rightarrow> user \<Rightarrow> obj \<Rightarrow> oid option \<Rightarrow> unit response option"
where
  "authorizeTeamAccess L users actor body query_userId =
     (if u_role actor = super_admin then None
      else if u_role actor = manager then
        (case targetUserId body query_userId of
           NoTarget \<Rightarrow> None
         | Target i \<Rightarrow> team_member users actor i (i = u_id actor)
         | OtherTarget v \<Rightarrow>
             (case castObjectId L v of
                None \<Rightarrow> Some ServerError500
              | Some i \<Rightarrow> team_member users actor i False))
      else
        (case targetUserId body query_userId of
           NoTarget \<Rightarrow> None
         | Target i \<Rightarrow> if i \<noteq> u_id actor then Some Forbidden403 else None
         | OtherTarget v \<Rightarrow> Some Forbidden403))"

subsection \<open>PUT /api/users/:id (backend/routes/users.js)\<close>

definition role_enum :: "string list" where
  "role_enum = [''super_admin'', ''manager'', ''employee'']"

definition role_of_string :: "string \<Rightarrow> role option" where
  "role_of_string s =
     (if s = ''super_admin'' then Some super_admin
      else if s = ''manager'' then Some manager
      else if s = ''employee'' then Some employee
      else None)"

text \<open>
  \<open>isBoolean()\<close> accepts the strings \<open>true\<close>, \<open>false\<close>, \<open>1\<close> and \<open>0\<close>; a boolean and a
  number are checked as the strings JavaScript prints them as.
\<close>

definition v_isBoolean :: "lib \<Rightarrow> jval option \<Rightarrow> bool" where
  "v_isBoolean L x =
     (case x of
        None \<Rightarrow> True
      | Some (JBool b) \<Rightarrow> True
      | Some (JNum n) \<Rightarrow> n = 0 \<or> n = 1
      | Some v \<Rightarrow> v_pred L (\<lambda>s. s \<in> set [''true'', ''false'', ''1'', ''0'']) (Some v))"

definition user_update_valid :: "lib \<Rightarrow> obj \<Rightarrow> bool" where
  "user_update_valid L body \<longleftrightarrow>
     v_trim_length L 2 50 (map_of body ''name'') \<and>
     v_pred L (isEmail L) (map_of body ''email'') \<and>
     v_isIn L role_enum (map_of body ''role'') \<and>
     v_trim_length L 0 50 (map_of body ''department'') \<and>
     v_pred L (isMobilePhone L) (map_of body ''phoneNumber'') \<and>
     v_isBoolean L (map_of body ''isActive'')"

text \<open>The sanitizers: \<open>trim()\<close> on \<open>name\<close> and \<open>department\<close>, \<open>normalizeEmail()\<close>.\<close>

definition sanitize_email :: "lib \<Rightarrow> obj \<Rightarrow> obj" where
  "sanitize_email L body =
     map (\<lambda>kv. if fst kv = ''email''
               then (fst kv, sanitize_value L (normalizeEmail L) (snd kv)) else kv) body"

text \<open>\<open>delete updates.k\<close>.\<close>

definition delete_key :: "string \<Rightarrow> obj \<Rightarrow> obj" where
  "delete_key k updates = filter (\<lambda>kv. fst kv \<noteq> k) updates"

definition lower_char :: "char \<Rightarrow> char" where
  "lower_char c =
     (let n = (of_char c :: nat) in if 65 \<le> n \<and> n \<le> 90 then char_of (n + 32) else c)"

text \<open>
  Mongoose's casts of a value to the type of a path: to a string where the path is
  required, to a string or \<open>null\<close>, and to a boolean. \<open>None\<close> is the error.
\<close>

definition cast_string :: "lib \<Rightarrow> jval \<Rightarrow> string option" where
  "cast_string L v = (case v of JStr s \<Rightarrow> Some s | JNull \<Rightarrow> None | _ \<Rightarrow> castString L v)"

definition cast_string_opt :: "lib \<Rightarrow> jval \<Rightarrow> string option option" where
  "cast_string_opt L v =
     (case v of JStr s \<Rightarrow> Some (Some s) | JNull \<Rightarrow> Some None | _ \<Rightarrow> map_option Some (castString L v))"

definition cast_boolean :: "jval \<Rightarrow> bool option" where
  "cast_boolean v =
     (case v of
        JBool b \<Rightarrow> Some b
      | JNum n \<Rightarrow> if n = 1 then Some True else if n = 0 then Some False else None
      | JStr s \<Rightarrow> if s \<in> set [''true'', ''1'', ''yes''] then Some True
                  else if s \<in> set [''false'', ''0'', ''no''] then Some False else None
      | _ \<Rightarrow> None)"

text \<open>
  One key of \<open>{ $set: updates }\<close> under \<open>runValidators\<close>, with the schema's setters
  (\<open>trim\<close>, \<open>lowercase\<close>) and validators: the change it makes to the user, or \<open>None\<close> for
  the error the update then throws. The schema's \<open>match\<close> on \<open>email\<close> is the parameter
  \<open>emailMatch\<close>. A key that names no path of the record changes nothing in it.
\<close>

definition set_path :: "lib \<Rightarrow> (string \<Rightarrow> bool) \<Rightarrow> string \<times> jval \<Rightarrow> (user \<Rightarrow> user) option" where
  "set_path L emailMatch kv =
     (let k = fst kv; v = snd kv in
      if k = ''name'' then
        (case cast_string L v of
           None \<Rightarrow> None
         | Some s \<Rightarrow> if trim s \<noteq> [] \<and> length (trim s) \<le> 50
                     then Some (\<lambda>u. u\<lparr>u_name := trim s\<rparr>) else None)
      else if k = ''email'' then
        (case cast_string L v of
           None \<Rightarrow> None
         | Some s \<Rightarrow> if trim s \<noteq> [] \<and> emailMatch (map lower_char (trim s))
                     then Some (\<lambda>u. u\<lparr>u_email := map lower_char (trim s)\<rparr>) else None)
      else if k = ''role'' then
        (case cast_string L v of
           None \<Rightarrow> None
         | Some s \<Rightarrow> map_option (\<lambda>r u. u\<lparr>u_role := r\<rparr>) (role_of_string s))
      else if k = ''isActive'' then
        map_option (\<lambda>b u. u\<lparr>u_isActive := b\<rparr>) (cast_boolean v)
      else if k = ''managerId'' then
        (case v of JId i \<Rightarrow> Some (\<lambda>u. u\<lparr>u_managerId := Some i\<rparr>)
                 | JNull \<Rightarrow> Some (\<lambda>u. u\<lparr>u_managerId := None\<rparr>)
                 | _ \<Rightarrow> map_option (\<lambda>i u. u\<lparr>u_managerId := Some i\<rparr>) (castObjectId L v))
      else if k = ''department'' then
        map_option (\<lambda>d u. u\<lparr>u_department := d\<rparr>) (cast_string_opt L v)
      else if k = ''phoneNumber'' then
        map_option (\<lambda>d u. u\<lparr>u_phoneNumber := d\<rparr>) (cast_string_opt L v)
      else if k = ''fcmToken'' then
        map_option (\<lambda>d u. u\<lparr>u_fcmToken := d\<rparr>) (cast_string_opt L v)
      else if k = ''lastLogin'' then
        (case v of JDate d \<Rightarrow> Some (\<lambda>u. u\<lparr>u_lastLogin := Some d\<rparr>)
                 | JNull \<Rightarrow> Some (\<lambda>u. u\<lparr>u_lastLogin := None\<rparr>)
                 | _ \<Rightarrow> map_option (\<lambda>d u. u\<lparr>u_lastLogin := Some d\<rparr>) (castDate L v))
      else if setOther L k v then Some (\<lambda>u. u) else None)"

text \<open>
  The whole update document: it is cast and validated before the query is sent, so
  an error there does not depend on the user found.
\<close>

fun set_all :: "lib \<Rightarrow> (string \<Rightarrow> bool) \<Rightarrow> obj \<Rightarrow> (user \<Rightarrow> user) option" where
  "set_all L emailMatch [] = Some (\<lambda>u. u)"
| "set_all L emailMatch (kv # rest) =
     (case set_path L emailMatch kv of
        None \<Rightarrow> None
      | Some f \<Rightarrow> map_option (\<lambda>g u. g (f u)) (set_all L emailMatch rest))"

text \<open>
  \<open>if (updates.email)\<close> and the search for another user with that address; \<open>None\<close>
  when the cast of the address in the filter throws.
\<close>

definition email_taken :: "lib \<Rightarrow> user list \<Rightarrow> oid \<Rightarrow> obj \<Rightarrow> bool option" where
  "email_taken L users userId updates =
     (case map_of updates ''email'' of
        None \<Rightarrow> Some False
      | Some v \<Rightarrow>
          if falsy v then Some False
          else (case cast_string L v of
                  None \<Rightarrow> None
                | Some e \<Rightarrow> Some (findOne (\<lambda>u. u_email u = e \<and> u_id u \<noteq> userId) users \<noteq> None)))"

text \<open>
  The handler behind \<open>authorizeTeamAccess\<close>, for the authenticated \<open>req.user\<close> and the
  path parameter \<open>id\<close>, the string of an id. \<open>query_userId\<close> is \<open>req.query.userId\<close>.
\<close>

definition put_user ::
  "lib \<Rightarrow> (string \<Rightarrow> bool) \<Rightarrow> request \<Rightarrow> user \<Rightarrow> oid \<Rightarrow> oid option \<Rightarrow> obj
     \<Rightarrow> user list \<times> audit_entry list \<Rightarrow> safe_user response \<times> user list \<times> audit_entry list"
where
  "put_user L emailMatch rq actor userId query_userId body db =
     (let users = fst db; logs = snd db in
      case authorizeTeamAccess L users actor body query_userId of
        Some ServerError500 \<Rightarrow> (ServerError500, users, logs)
      | Some NotFound404 \<Rightarrow> (NotFound404, users, logs)
      | Some _ \<Rightarrow> (Forbidden403, users, logs)
      | None \<Rightarrow>
          if user_update_valid L body
          then
            let updates0 = sanitize_email L (sanitize_trim L [''name'', ''department''] body);
                updates1 = delete_key ''twoFactorSecret''
                             (delete_key ''lockUntil''
                                (delete_key ''loginAttempts'' (delete_key ''password'' updates0)))
            in
            if u_role actor = employee \<and>
               (hasUnauthorizedFields [''name'', ''phoneNumber'', ''notificationSettings''] updates1 \<or>
                userId \<noteq> u_id actor)
            then (Forbidden403, users, logs)
            else
              let updates = (if u_role actor = manager
                             then delete_key ''isActive'' (delete_key ''role'' updates1)
                             else updates1)
              in
              case email_taken L users userId updates of
                None \<Rightarrow> (ServerError500, users, logs)
              | Some True \<Rightarrow> (BadRequest400, users, logs)
              | Some False \<Rightarrow>
                  (case set_all L emailMatch updates of
                     None \<Rightarrow> (ServerError500, users, logs)
                   | Some f \<Rightarrow>
                       (case findOne (\<lambda>u. u_id u = userId) users of
                          None \<Rightarrow> (NotFound404, users, logs)
                        | Some old \<Rightarrow>
                            let user = f old in
                            (Ok200 (toSafeObject user),
                             updateOne (\<lambda>u. u_id u = userId) (\<lambda>u. user) users,
                             audit rq logs
                               ((log_base rq (Some (u_id actor)) ''user_updated'' ''user'')
                                  \<lparr> ld_resourceId := Some (u_id user),
                                    ld_details :=
                                      [(''updatedFields'', JList (map (\<lambda>kv. JStr (fst kv)) updates)),
                                       (''updatedBy'', JStr (string_of_role (u_role actor)))],
                                    ld_category := Some ''data'' \<rparr>))))
          else (BadRequest400, users, logs))"





subsection \<open>The tables of the specification\<close>

text \<open>
  The specification's section 4.2, written down for comparison with the handlers: who
  owns an assignee, which actor may trigger which target status, and which pairs of
  states the state machine connects.
\<close>

definition owning_manager :: "user \<Rightarrow> user \<Rightarrow> bool" where
  "owning_manager actor assignee \<longleftrightarrow> u_role actor = manager \<and> u_managerId assignee = Some (u_id actor)"

definition spec_allowed_actor :: "status \<Rightarrow> user \<Rightarrow> task \<Rightarrow> user \<Rightarrow> bool" where
  "spec_allowed_actor T actor task assignee =
     (case T of
        in_progress \<Rightarrow> u_id actor = t_assignedTo task
      | completed \<Rightarrow> u_id actor = t_assignedTo task
      | approved \<Rightarrow> u_role actor = super_admin \<or> u_id actor = t_assignedBy task \<or>
                     owning_manager actor assignee
      | rejected \<Rightarrow> u_role actor = super_admin \<or> u_id actor = t_assignedBy task \<or>
                     owning_manager actor assignee
      | pending \<Rightarrow> u_role actor = super_admin \<or> u_id actor = t_assignedBy task \<or>
                    u_id actor = t_assignedTo task \<or> owning_manager actor assignee)"

definition spec_transition_table :: "status \<Rightarrow> status \<Rightarrow> bool" where
  "spec_transition_table S T \<longleftrightarrow>
     (S = pending \<and> T = in_progress) \<or>
     (S = in_progress \<and> T = completed) \<or>
     (S = completed \<and> T = approved) \<or>
     (S = completed \<and> T = rejected) \<or>
     (S \<in> {pending, in_progress, completed} \<and> T = pending)"

text \<open>
  The specification's section 4.3: the entries it calls security-relevant.
\<close>

definition security_relevant :: "audit_entry \<Rightarrow> bool" where
  "security_relevant e \<longleftrightarrow>
     ae_category e = ''security'' \<or>
     ae_action e \<in> {''login'', ''logout'', ''failed_login'', ''password_change''} \<or>
     ae_success e = False \<or>
     ae_severity e \<in> {''high'', ''critical''}"

section \<open>Example data\<close>

definition default_config :: config where
  "default_config = \<lparr>MAX_LOGIN_ATTEMPTS = None, LOCKOUT_TIME = None\<rparr>"

text \<open>A small stand-in for the libraries, which refuses every value other than a \<open>JStr\<close>.\<close>

definition lib0 :: lib where
  "lib0 = \<lparr> isEmail = (\<lambda>s. CHR ''@'' \<in> set s), normalizeEmail = (\<lambda>s. s),
            isMobilePhone = (\<lambda>s. s \<noteq> []),
            isISO8601 = (\<lambda>s. False),
            isFloat_min0 = (\<lambda>s. s \<noteq> [] \<and> list_all (\<lambda>c. c \<in> set ''0123456789'') s),
            validate = (\<lambda>P v. False), sanitize = (\<lambda>f v. v),
            parseDate = (\<lambda>v. None), castString = (\<lambda>v. None),
            castObjectId = (\<lambda>v. None), castDate = (\<lambda>v. None),
            setOther = (\<lambda>k v. True),
            bcrypt_compare = (\<lambda>candidate hash. hash = candidate) \<rparr>"

definition ann :: user where
  "ann = \<lparr> u_id = 3, u_name = ''Ann'', u_email = ''ann@x.io'', u_password = Some ''s3cret'',
           u_role = employee, u_managerId = Some 2, u_isActive = True, u_lastLogin = None,
           u_loginAttempts = 0, u_lockUntil = None, u_fcmToken = None,
           u_phoneNumber = None, u_department = None \<rparr>"

definition req_at :: "time \<Rightarrow> request" where
  "req_at t = \<lparr> rq_now = t, rq_ip = Some ''10.0.0.7'', rq_userAgent = None, rq_audit_ok = True \<rparr>"

definition ann_login :: "string \<Rightarrow> login_req" where
  "ann_login pw = \<lparr> lr_email = ''ann@x.io'', lr_password = pw, lr_fcmToken = None \<rparr>"

definition five_guesses :: "(request \<times> login_req) list" where
  "five_guesses = map (\<lambda>t. (req_at t, ann_login ''guess'')) [1000, 2000, 3000, 4000, 5000]"

definition admin :: user where
  "admin = \<lparr> u_id = 1, u_name = ''Root'', u_email = ''root@x.io'', u_password = Some ''adm1n!'',
             u_role = super_admin, u_managerId = None, u_isActive = True, u_lastLogin = None,
             u_loginAttempts = 0, u_lockUntil = None, u_fcmToken = None,
             u_phoneNumber = None, u_department = None \<rparr>"

definition mike :: user where
  "mike = \<lparr> u_id = 2, u_name = ''Mike'', u_email = ''mike@x.io'', u_password = Some ''m1ke!!'',
            u_role = manager, u_managerId = None, u_isActive = True, u_lastLogin = None,
            u_loginAttempts = 0, u_lockUntil = None, u_fcmToken = None,
            u_phoneNumber = None, u_department = None \<rparr>"

definition staff :: "user list" where
  "staff = [admin, mike, ann]"

text \<open>A task that Mike assigned to Ann, and the same task assigned by the administrator.\<close>

definition report_task :: task where
  "report_task = \<lparr> t_id = 7, t_title = ''Quarterly report'', t_description = ''Write the report'',
                    t_priority = ''medium'', t_status = pending, t_assignedBy = 2, t_assignedTo = 3,
                    t_deadline = 900000, t_completedAt = None, t_approvedAt = None,
                    t_approvedBy = None, t_tags = [], t_estimatedHours = None,
                    t_actualHours = None, t_isArchived = False, t_statusHistory = [],
                    t_rejectionReason = None \<rparr>"

definition status_req :: "string \<Rightarrow> string option \<Rightarrow> status_body" where
  "status_req s reason = \<lparr> sb_status = s, sb_comment = None, sb_rejectionReason = reason \<rparr>"

text \<open>
  The same task once completed, once approved by Mike at instant 600, and reset to
  pending after that approval.
\<close>

definition finished_task :: task where
  "finished_task = report_task\<lparr> t_status := completed, t_completedAt := Some 500 \<rparr>"

definition approved_task :: task where
  "approved_task = finished_task\<lparr> t_status := approved, t_approvedAt := Some 600,
                                   t_approvedBy := Some 2 \<rparr>"

definition reopened_task :: task where
  "reopened_task = approved_task\<lparr> t_status := pending \<rparr>"

definition admin_task :: task where
  "admin_task = report_task\<lparr> t_assignedBy := 1 \<rparr>"

text \<open>Audit entries: an old failed login, a recent login, two task creations.\<close>

definition old_entry :: audit_entry where
  "old_entry = \<lparr> ae_user = 3, ae_action = ''failed_login'', ae_resource = ''auth'',
                  ae_resourceId = None, ae_details = [], ae_ipAddress = ''10.0.0.7'',
                  ae_userAgent = None, ae_sessionId = None, ae_success = False,
                  ae_errorMessage = None, ae_severity = ''medium'', ae_category = ''security'',
                  ae_createdAt = 0 \<rparr>"

definition recent_entry :: audit_entry where
  "recent_entry = old_entry\<lparr> ae_action := ''login'', ae_success := True, ae_severity := ''low'',
                              ae_createdAt := 99000000 \<rparr>"

definition plain_entry :: audit_entry where
  "plain_entry = old_entry\<lparr> ae_action := ''task_created'', ae_resource := ''task'',
                             ae_success := True, ae_severity := ''low'', ae_category := ''data'',
                             ae_createdAt := 99500000 \<rparr>"

definition grave_entry :: audit_entry where
  "grave_entry = plain_entry\<lparr> ae_severity := ''high'', ae_createdAt := 5 \<rparr>"



section \<open>Verified properties\<close>

subsection \<open>Collections and the login route\<close>

lemma map_id_updateOne:
  "(\<And>x. u_id (f x) = u_id x) \<Longrightarrow> map u_id (updateOne P f xs) = map u_id xs"
  by (induction xs) auto

lemma find_updateOne:
  "distinct (map u_id xs) \<Longrightarrow> find (\<lambda>x. u_email x = em) xs = Some v \<Longrightarrow> u_email (f v) = em \<Longrightarrow>
   find (\<lambda>x. u_email x = em) (updateOne (\<lambda>d. u_id d = u_id v) f xs) = Some (f v)"
proof (induction xs)
  case Nil then show ?case by simp
next
  case (Cons x xs)
  show ?case
  proof (cases "u_email x = em")
    case True
    with Cons.prems show ?thesis by simp
  next
    case False
    with Cons.prems have fv: "find (\<lambda>x. u_email x = em) xs = Some v" by simp
    then have "v \<in> set xs" by (auto simp: find_Some_iff)
    with Cons.prems have "u_id x \<noteq> u_id v" by auto
    with False Cons fv show ?thesis by simp
  qed
qed

lemma login_wrong_password:
  assumes "distinct (map u_id users)"
    and "findOne (\<lambda>x. u_email x = normalizeEmail L (lr_email body)) users = Some v"
    and "isEmail L (lr_email body)" and "lr_password body \<noteq> []"
    and "u_isActive v" and "u_lockUntil v = None"
    and "\<not> comparePassword (bcrypt_compare L) v (lr_password body)"
  shows "\<exists>logs'. login L \<lparr>MAX_LOGIN_ATTEMPTS = None, LOCKOUT_TIME = None\<rparr> rq body (users, logs) =
           (InvalidCredentials,
            updateOne (\<lambda>d. u_id d = u_id v)
              (\<lambda>d. d\<lparr>u_loginAttempts := u_loginAttempts d + 1,
                      u_lockUntil := (if u_loginAttempts v + 1 \<ge> 5 then Some (rq_now rq + 1800000) else u_lockUntil d)\<rparr>) users, logs')"
  using assms
  by (auto simp: login_def Let_def isLocked_def incLoginAttempts_def env_int_def)

lemma comparePassword_cong:
  "u_password v' = u_password v \<Longrightarrow> comparePassword c v' p = comparePassword c v p"
  by (simp add: comparePassword_def)

lemma login_wrong_step:
  assumes "distinct (map u_id users)"
    and "findOne (\<lambda>x. u_email x = normalizeEmail L (lr_email body)) users = Some v"
    and "isEmail L (lr_email body)" and "lr_password body \<noteq> []"
    and "u_isActive v" and "u_lockUntil v = None"
    and "\<not> comparePassword (bcrypt_compare L) v (lr_password body)"
  shows "\<exists>users' logs' v'. login L default_config rq body (users, logs) = (InvalidCredentials, users', logs')
           \<and> distinct (map u_id users')
           \<and> findOne (\<lambda>x. u_email x = normalizeEmail L (lr_email body)) users' = Some v'
           \<and> u_loginAttempts v' = u_loginAttempts v + 1
           \<and> u_lockUntil v' = (if u_loginAttempts v + 1 \<ge> 5 then Some (rq_now rq + 1800000) else None)
           \<and> u_password v' = u_password v \<and> u_isActive v'"
proof -
  let ?em = "normalizeEmail L (lr_email body)"
  let ?f = "\<lambda>d. d\<lparr>u_loginAttempts := u_loginAttempts d + 1,
                      u_lockUntil := (if u_loginAttempts v + 1 \<ge> 5 then Some (rq_now rq + 1800000) else u_lockUntil d)\<rparr>"
  let ?users' = "updateOne (\<lambda>d. u_id d = u_id v) ?f users"
  from assms obtain logs' where
    L: "login L default_config rq body (users, logs) = (InvalidCredentials, ?users', logs')"
    using login_wrong_password[OF assms, of rq logs] by (auto simp: default_config_def)
  from assms(2) have em: "u_email v = ?em"
    by (auto simp: findOne_def find_Some_iff)
  have d: "distinct (map u_id ?users')"
    using assms(1) by (simp add: map_id_updateOne)
  have f: "findOne (\<lambda>x. u_email x = ?em) ?users' = Some (?f v)"
    unfolding findOne_def
    by (rule find_updateOne) (use assms em in \<open>simp_all add: findOne_def\<close>)
  show ?thesis
    using L d f assms(5,6) by (intro exI[of _ ?users'] exI[of _ logs'] exI[of _ "?f v"]) simp
qed

lemma login_seq_wrong:
  assumes "distinct (map u_id users)"
    and "findOne (\<lambda>x. u_email x = normalizeEmail L e) users = Some v"
    and "isEmail L e" and "u_isActive v" and "u_lockUntil v = None"
    and "u_loginAttempts v + int (length as) \<le> 5"
    and "\<forall>a\<in>set as. lr_email (snd a) = e \<and> lr_password (snd a) \<noteq> [] \<and>
           \<not> comparePassword (bcrypt_compare L) v (lr_password (snd a))"
  shows "\<exists>users' logs' v'. login_seq L default_config as (users, logs) =
             (replicate (length as) InvalidCredentials, users', logs')
           \<and> distinct (map u_id users')
           \<and> findOne (\<lambda>x. u_email x = normalizeEmail L e) users' = Some v'
           \<and> u_loginAttempts v' = u_loginAttempts v + int (length as)
           \<and> u_lockUntil v' = (if as \<noteq> [] \<and> u_loginAttempts v + int (length as) \<ge> 5
                                then Some (rq_now (fst (last as)) + 1800000) else None)
           \<and> u_password v' = u_password v \<and> u_isActive v'"
  using assms
proof (induction as arbitrary: users logs v)
  case Nil
  then show ?case by simp
next
  case (Cons a rest)
  from Cons.prems obtain users1 logs1 v1 where
    s: "login L default_config (fst a) (snd a) (users, logs) = (InvalidCredentials, users1, logs1)"
    and d1: "distinct (map u_id users1)"
    and f1: "findOne (\<lambda>x. u_email x = normalizeEmail L e) users1 = Some v1"
    and a1: "u_loginAttempts v1 = u_loginAttempts v + 1"
    and l1: "u_lockUntil v1 = (if u_loginAttempts v + 1 \<ge> 5 then Some (rq_now (fst a) + 1800000) else None)"
    and p1: "u_password v1 = u_password v" and i1: "u_isActive v1"
    using login_wrong_step[of users L "snd a" v "fst a" logs] by auto
  show ?case
  proof (cases rest)
    case Nil
    with s d1 f1 a1 l1 p1 i1 show ?thesis by simp
  next
    case (Cons b rest')
    with Cons.prems(6) have lt: "u_loginAttempts v + 1 < 5" by simp
    with l1 have l1': "u_lockUntil v1 = None" by simp
    have "\<exists>users' logs' v'. login_seq L default_config rest (users1, logs1) =
             (replicate (length rest) InvalidCredentials, users', logs')
           \<and> distinct (map u_id users')
           \<and> findOne (\<lambda>x. u_email x = normalizeEmail L e) users' = Some v'
           \<and> u_loginAttempts v' = u_loginAttempts v1 + int (length rest)
           \<and> u_lockUntil v' = (if rest \<noteq> [] \<and> u_loginAttempts v1 + int (length rest) \<ge> 5
                                then Some (rq_now (fst (last rest)) + 1800000) else None)
           \<and> u_password v' = u_password v1 \<and> u_isActive v'"
      using Cons.prems d1 f1 i1 l1' a1 p1
      by (intro Cons.IH) (simp_all add: comparePassword_cong[OF p1])
    then obtain users' logs' v' where
      r: "login_seq L default_config rest (users1, logs1) =
             (replicate (length rest) InvalidCredentials, users', logs')"
      and r2: "distinct (map u_id users')"
        "findOne (\<lambda>x. u_email x = normalizeEmail L e) users' = Some v'"
        "u_loginAttempts v' = u_loginAttempts v1 + int (length rest)"
        "u_lockUntil v' = (if rest \<noteq> [] \<and> u_loginAttempts v1 + int (length rest) \<ge> 5
                                then Some (rq_now (fst (last rest)) + 1800000) else None)"
        "u_password v' = u_password v1" "u_isActive v'"
      by blast
    show ?thesis
      using s r r2 a1 p1 Cons by (intro exI[of _ users'] exI[of _ logs'] exI[of _ v']) simp
  qed
qed

lemma login_locked:
  assumes "findOne (\<lambda>x. u_email x = normalizeEmail L (lr_email body)) users = Some v"
    and "isEmail L (lr_email body)" and "lr_password body \<noteq> []"
    and "u_lockUntil v = Some l" and "rq_now rq < l"
  shows "\<exists>logs'. login (L\<lparr>bcrypt_compare := cmp\<rparr>) cfg rq body (users, logs) = (AccountLocked, users, logs')"
  using assms by (simp add: login_def Let_def isLocked_def)

lemma login_correct_after_expiry:
  assumes "distinct (map u_id users)"
    and "findOne (\<lambda>x. u_email x = normalizeEmail L (lr_email body)) users = Some v"
    and "isEmail L (lr_email body)" and "lr_password body \<noteq> []"
    and "u_isActive v" and "u_lockUntil v = Some l" and "l \<le> rq_now rq"
    and "u_loginAttempts v > 0"
    and "comparePassword (bcrypt_compare L) v (lr_password body)"
  shows "\<exists>su users' logs' v'. login L cfg rq body (users, logs) = (LoginOk su, users', logs')
           \<and> findOne (\<lambda>x. u_email x = normalizeEmail L (lr_email body)) users' = Some v'
           \<and> u_loginAttempts v' = 0 \<and> u_lockUntil v' = None"
proof -
  let ?em = "normalizeEmail L (lr_email body)"
  let ?P = "\<lambda>d. u_id d = u_id v"
  let ?users1 = "updateOne ?P resetLoginAttempts users"
  from assms(2) have em: "u_email v = ?em"
    by (auto simp: findOne_def find_Some_iff)
  have d1: "distinct (map u_id ?users1)"
    using assms(1) by (simp add: map_id_updateOne resetLoginAttempts_def)
  have f1: "find (\<lambda>x. u_email x = ?em) ?users1 = Some (resetLoginAttempts v)"
    by (rule find_updateOne) (use assms em in \<open>simp_all add: findOne_def resetLoginAttempts_def\<close>)
  have id1: "u_id (resetLoginAttempts v) = u_id v" by (simp add: resetLoginAttempts_def)
  have f2: "\<And>g. u_email (g (resetLoginAttempts v)) = ?em \<Longrightarrow>
     find (\<lambda>x. u_email x = ?em) (updateOne ?P g ?users1) = Some (g (resetLoginAttempts v))"
    using find_updateOne[OF d1 f1] unfolding id1 by simp
  show ?thesis
    using assms em
    by (auto simp: login_def Let_def isLocked_def findOne_def f2 resetLoginAttempts_def
             split: option.splits)
qed

text \<open>
  Claim C4. A user with no failed attempts on record and no lock, whose account is active,
  receives five login requests with a wrong password, under the default configuration
  (neither \<open>MAX_LOGIN_ATTEMPTS\<close> nor \<open>LOCKOUT_TIME\<close> set). Each of the five is answered
  \<open>InvalidCredentials\<close>; afterwards the stored user has \<open>loginAttempts = 5\<close> and
  \<open>lockUntil\<close> equal to the instant of the fifth request plus 1800000 ms (30 minutes).
  Every later request before that instant is answered \<open>AccountLocked\<close> and leaves the
  users untouched, whatever the password and whatever \<open>bcrypt.compare\<close> would say: the
  handler answers before it compares. A request at or after that instant with the correct
  password succeeds and leaves the stored user with \<open>loginAttempts = 0\<close> and no
  \<open>lockUntil\<close>.
\<close>

theorem lockout_after_five_failures:
  assumes "distinct (map u_id users)"
    and "findOne (\<lambda>x. u_email x = normalizeEmail L e) users = Some u"
    and "isEmail L e" and "u_isActive u"
    and "u_loginAttempts u = 0" and "u_lockUntil u = None"
    and "length as = 5"
    and "\<forall>a\<in>set as. lr_email (snd a) = e \<and> lr_password (snd a) \<noteq> [] \<and>
           \<not> comparePassword (bcrypt_compare L) u (lr_password (snd a))"
  shows "case login_seq L default_config as (users, logs) of (rs, users5, logs5) \<Rightarrow>
           rs = replicate 5 InvalidCredentials \<and>
           (\<exists>u5. findOne (\<lambda>x. u_email x = normalizeEmail L e) users5 = Some u5 \<and>
                 u_loginAttempts u5 = 5 \<and>
                 u_lockUntil u5 = Some (rq_now (fst (last as)) + 1800000)) \<and>
           (\<forall>rq pw fcm cmp.
              rq_now rq < rq_now (fst (last as)) + 1800000 \<and> pw \<noteq> [] \<longrightarrow>
              (case login (L\<lparr>bcrypt_compare := cmp\<rparr>) default_config rq
                      \<lparr>lr_email = e, lr_password = pw, lr_fcmToken = fcm\<rparr> (users5, logs5) of
                 (r, users6, logs6) \<Rightarrow> r = AccountLocked \<and> users6 = users5)) \<and>
           (\<forall>rq pw fcm.
              rq_now (fst (last as)) + 1800000 \<le> rq_now rq \<and> pw \<noteq> [] \<and>
              comparePassword (bcrypt_compare L) u pw \<longrightarrow>
              (case login L default_config rq
                      \<lparr>lr_email = e, lr_password = pw, lr_fcmToken = fcm\<rparr> (users5, logs5) of
                 (r, users7, logs7) \<Rightarrow>
                   (\<exists>su. r = LoginOk su) \<and>
                   (\<exists>u7. findOne (\<lambda>x. u_email x = normalizeEmail L e) users7 = Some u7 \<and>
                         u_loginAttempts u7 = 0 \<and> u_lockUntil u7 = None)))"
proof -
  let ?T = "rq_now (fst (last as)) + 1800000"
  from assms have ne: "as \<noteq> []" by auto
  obtain users5 logs5 u5 where
    s: "login_seq L default_config as (users, logs) = (replicate (length as) InvalidCredentials, users5, logs5)"
    and d: "distinct (map u_id users5)"
    and f: "findOne (\<lambda>x. u_email x = normalizeEmail L e) users5 = Some u5"
    and a: "u_loginAttempts u5 = u_loginAttempts u + int (length as)"
    and l: "u_lockUntil u5 = (if as \<noteq> [] \<and> u_loginAttempts u + int (length as) \<ge> 5
                                then Some (rq_now (fst (last as)) + 1800000) else None)"
    and p: "u_password u5 = u_password u" and i: "u_isActive u5"
    using login_seq_wrong[OF assms(1,2,3,4,6) _ assms(8), of logs] assms(5,7) by auto
  from a l ne assms have a5: "u_loginAttempts u5 = 5" and l5: "u_lockUntil u5 = Some ?T" by simp_all
  have locked: "case login (L\<lparr>bcrypt_compare := cmp\<rparr>) default_config rq
                      \<lparr>lr_email = e, lr_password = pw, lr_fcmToken = fcm\<rparr> (users5, logs5) of
                 (r, users6, logs6) \<Rightarrow> r = AccountLocked \<and> users6 = users5"
    if "rq_now rq < ?T" "pw \<noteq> []" for rq pw fcm cmp
    using login_locked[of L "\<lparr>lr_email = e, lr_password = pw, lr_fcmToken = fcm\<rparr>" users5 u5 ?T rq cmp default_config logs5]
      f assms(3) that l5 by auto
  have ok: "case login L default_config rq
                      \<lparr>lr_email = e, lr_password = pw, lr_fcmToken = fcm\<rparr> (users5, logs5) of
                 (r, users7, logs7) \<Rightarrow>
                   (\<exists>su. r = LoginOk su) \<and>
                   (\<exists>u7. findOne (\<lambda>x. u_email x = normalizeEmail L e) users7 = Some u7 \<and>
                         u_loginAttempts u7 = 0 \<and> u_lockUntil u7 = None)"
    if "?T \<le> rq_now rq" "pw \<noteq> []" "comparePassword (bcrypt_compare L) u pw" for rq pw fcm
    using login_correct_after_expiry[of users5 L "\<lparr>lr_email = e, lr_password = pw, lr_fcmToken = fcm\<rparr>" u5 ?T rq default_config logs5]
      d f assms(3) that l5 a5 i comparePassword_cong[OF p] by auto
  show ?thesis
    using s a5 l5 f locked ok assms(7) by simp
qed

theorem lockout_after_five_failures_witness:
  "distinct (map u_id [ann]) \<and>
   findOne (\<lambda>x. u_email x = normalizeEmail lib0 ''ann@x.io'') [ann] = Some ann \<and>
   isEmail lib0 ''ann@x.io'' \<and> u_isActive ann \<and> u_loginAttempts ann = 0 \<and> u_lockUntil ann = None \<and>
   length five_guesses = 5 \<and>
   list_all (\<lambda>a. lr_email (snd a) = ''ann@x.io'' \<and> lr_password (snd a) \<noteq> [] \<and>
           \<not> comparePassword (bcrypt_compare lib0) ann (lr_password (snd a))) five_guesses \<and>
   (case login_seq lib0 default_config five_guesses ([ann], []) of (rs, users5, logs5) \<Rightarrow>
      rs = replicate 5 InvalidCredentials \<and>
      (\<exists>u5. findOne (\<lambda>x. u_email x = ''ann@x.io'') users5 = Some u5 \<and>
            u_loginAttempts u5 = 5 \<and> u_lockUntil u5 = Some 1805000) \<and>
      fst (login lib0 default_config (req_at 6000) (ann_login ''s3cret'') (users5, logs5)) = AccountLocked \<and>
      (\<exists>su. fst (login lib0 default_config (req_at 1805000) (ann_login ''s3cret'') (users5, logs5)) = LoginOk su))"
proof -
  have h1: "distinct (map u_id [ann])" by simp
  have h2: "findOne (\<lambda>x. u_email x = normalizeEmail lib0 ''ann@x.io'') [ann] = Some ann"
    by (simp add: findOne_def lib0_def ann_def)
  have h3: "isEmail lib0 ''ann@x.io''" by (simp add: lib0_def)
  have h4: "u_isActive ann" "u_loginAttempts ann = 0" "u_lockUntil ann = None"
    by (simp_all add: ann_def)
  have h7: "length five_guesses = 5" by (simp add: five_guesses_def)
  have h8: "\<forall>a\<in>set five_guesses. lr_email (snd a) = ''ann@x.io'' \<and> lr_password (snd a) \<noteq> [] \<and>
           \<not> comparePassword (bcrypt_compare lib0) ann (lr_password (snd a))"
    by (simp add: five_guesses_def ann_login_def comparePassword_def lib0_def ann_def)
  have la: "rq_now (fst (last five_guesses)) = 5000"
    by (simp add: five_guesses_def req_at_def)
  have ne: "normalizeEmail lib0 ''ann@x.io'' = ''ann@x.io''" by (simp add: lib0_def)
  have ok: "comparePassword (bcrypt_compare lib0) ann ''s3cret''"
    by (simp add: comparePassword_def lib0_def ann_def)
  have l0: "lib0\<lparr>bcrypt_compare := bcrypt_compare lib0\<rparr> = lib0" by simp
  note c = lockout_after_five_failures[OF h1 h2 h3 h4 h7 h8, of "[]", unfolded la ne]
  obtain rs users5 logs5 where
    s: "login_seq lib0 default_config five_guesses ([ann], []) = (rs, users5, logs5)"
    by (cases "login_seq lib0 default_config five_guesses ([ann], [])") auto
  from c s have c1: "rs = replicate 5 InvalidCredentials"
    and c2: "\<exists>u5. findOne (\<lambda>x. u_email x = ''ann@x.io'') users5 = Some u5 \<and>
            u_loginAttempts u5 = 5 \<and> u_lockUntil u5 = Some 1805000"
    and c3: "\<And>rq pw fcm cmp. rq_now rq < 1805000 \<Longrightarrow> pw \<noteq> [] \<Longrightarrow>
              (case login (lib0\<lparr>bcrypt_compare := cmp\<rparr>) default_config rq
                      \<lparr>lr_email = ''ann@x.io'', lr_password = pw, lr_fcmToken = fcm\<rparr> (users5, logs5) of
                 (r, users6, logs6) \<Rightarrow> r = AccountLocked \<and> users6 = users5)"
    and c4: "\<And>rq pw fcm. 1805000 \<le> rq_now rq \<Longrightarrow> pw \<noteq> [] \<Longrightarrow>
              comparePassword (bcrypt_compare lib0) ann pw \<Longrightarrow>
              (case login lib0 default_config rq
                      \<lparr>lr_email = ''ann@x.io'', lr_password = pw, lr_fcmToken = fcm\<rparr> (users5, logs5) of
                 (r, users7, logs7) \<Rightarrow>
                   (\<exists>su. r = LoginOk su) \<and>
                   (\<exists>u7. findOne (\<lambda>x. u_email x = ''ann@x.io'') users7 = Some u7 \<and>
                         u_loginAttempts u7 = 0 \<and> u_lockUntil u7 = None))"
    by simp_all
  from c3[where rq="req_at 6000" and pw="''s3cret''" and fcm=None and cmp="bcrypt_compare lib0"]
  have w3: "fst (login lib0 default_config (req_at 6000) (ann_login ''s3cret'') (users5, logs5)) = AccountLocked"
    unfolding l0 by (auto simp: req_at_def ann_login_def split: prod.splits)
  from c4[where rq="req_at 1805000" and pw="''s3cret''" and fcm=None] ok
  have w4: "\<exists>su. fst (login lib0 default_config (req_at 1805000) (ann_login ''s3cret'') (users5, logs5)) = LoginOk su"
    by (auto simp: req_at_def ann_login_def split: prod.splits)
  show ?thesis
    using h1 h2 h3 h4 h7 h8 s c1 c2 w3 w4 by (simp add: list_all_iff)
qed

subsection \<open>The audit recorder\<close>

lemma audit_save_null_user:
  "ld_user d = None \<Longrightarrow> audit_save io_ok now store d = Inl ValidationError"
  by (simp add: audit_save_def audit_validate_def)

lemma logAction_null_user:
  "ld_user d = None \<Longrightarrow> logAction io_ok now store d = (store, None)"
  by (simp add: logAction_def audit_save_null_user)

text \<open>
  Claim C10. A \<open>logAction\<close> call whose payload has a \<open>null\<close> user fails the schema's
  \<open>required\<close> validator: the save is rejected with a \<open>ValidationError\<close>, \<open>logAction\<close>
  returns \<open>null\<close> and the collection is as before. The login handler issues exactly
  this call when the address matches no user, so such a request is answered
  \<open>InvalidCredentials\<close> and leaves no entry in the audit collection.
\<close>

theorem unknown_user_login_leaves_no_audit_entry:
  assumes "isEmail L (lr_email body)" and "lr_password body \<noteq> []"
    and "findOne (\<lambda>u. u_email u = normalizeEmail L (lr_email body)) users = None"
  shows "(\<forall>io_ok now store d.
            ld_user d = None \<longrightarrow>
            audit_save io_ok now store d = Inl ValidationError \<and>
            logAction io_ok now store d = (store, None)) \<and>
         ld_user (failed_login_log rq None (normalizeEmail L (lr_email body))
                    ''user_not_found'' ''medium'') = None \<and>
         login L cfg rq body (users, logs) = (InvalidCredentials, users, logs)"
proof -
  have n: "ld_user (failed_login_log rq None e r s) = None" for e r s
    by (simp add: failed_login_log_def log_base_def)
  have "login L cfg rq body (users, logs) = (InvalidCredentials, users, logs)"
    using assms by (simp add: login_def Let_def audit_def logAction_null_user[OF n])
  then show ?thesis
    by (simp add: n audit_save_null_user logAction_null_user)
qed

theorem unknown_user_login_leaves_no_audit_entry_witness:
  "isEmail lib0 ''bob@x.io'' \<and>
   findOne (\<lambda>u. u_email u = normalizeEmail lib0 ''bob@x.io'') [ann] = None \<and>
   login lib0 default_config (req_at 1000)
     \<lparr>lr_email = ''bob@x.io'', lr_password = ''hunter2'', lr_fcmToken = None\<rparr> ([ann], [])
     = (InvalidCredentials, [ann], []) \<and>
   logAction True 1000 []
     (failed_login_log (req_at 1000) None ''bob@x.io'' ''user_not_found'' ''medium'') = ([], None)"
proof -
  let ?body = "\<lparr>lr_email = ''bob@x.io'', lr_password = ''hunter2'', lr_fcmToken = None\<rparr>"
  have h1: "isEmail lib0 (lr_email ?body)" by (simp add: lib0_def)
  have h2: "lr_password ?body \<noteq> []" by simp
  have h3: "findOne (\<lambda>u. u_email u = normalizeEmail lib0 (lr_email ?body)) [ann] = None"
    by (simp add: findOne_def lib0_def ann_def)
  note c = unknown_user_login_leaves_no_audit_entry[OF h1 h2 h3, of "req_at 1000" default_config "[]"]
  have n: "normalizeEmail lib0 ''bob@x.io'' = ''bob@x.io''" by (simp add: lib0_def)
  from c have "logAction True 1000 []
     (failed_login_log (req_at 1000) None ''bob@x.io'' ''user_not_found'' ''medium'') = ([], None)"
    by (simp add: n)
  with c h1 h3 show ?thesis by simp
qed

subsection \<open>The status route\<close>

lemma findOne_id: "findOne (\<lambda>u. u_id u = i) users = Some u \<Longrightarrow> u_id u = i"
  by (auto simp: findOne_def find_Some_iff)

lemma populate_found:
  "findOne (\<lambda>u. u_id u = i) users = Some u \<Longrightarrow>
   populate [''name'', ''email'', ''role''] users i =
     Some \<lparr> r_id = i, r_name = Some (u_name u), r_email = Some (u_email u),
            r_role = Some (u_role u), r_managerId = None \<rparr>"
  by (frule findOne_id) (simp add: populate_def)

lemma status_pre_save: "t_status (pre_save now old c m t) = t_status t"
  by (simp add: pre_save_def Let_def)

lemma status_updateStatus: "t_status (updateStatus now T a c t) = T"
  by (simp add: updateStatus_def Let_def status_pre_save)

lemma id_updateStatus: "t_id (updateStatus now T a c t) = t_id t"
  by (simp add: updateStatus_def pre_save_def Let_def)

lemma hasPermission_resolved:
  assumes "owning_manager actor ua \<longrightarrow> u_id actor = t_assignedBy task"
  shows "hasPermission T actor
           (Some \<lparr> r_id = t_assignedBy task, r_name = n1, r_email = e1, r_role = r1, r_managerId = None \<rparr>)
           (Some \<lparr> r_id = t_assignedTo task, r_name = n2, r_email = e2, r_role = r2, r_managerId = None \<rparr>)
         = Some (spec_allowed_actor T actor task ua)"
  using assms
  by (cases T)
     (auto simp: hasPermission_def spec_allowed_actor_def or_else_def ref_is_def manager_of_def
                 manages_def)

text \<open>
  Claim C1, as amended. The handler has no transition table and no answer
  \<open>InvalidTransition\<close>: for a task in any current status, a valid target status and
  references that resolve, the request succeeds exactly when the actor is in the allowed
  set of the target status, and is answered \<open>403\<close> otherwise. The case of a Manager who
  owns the assignee without being the task's \<open>assignedBy\<close> is left out.
\<close>

theorem transition_decided_by_actor_and_target:
  assumes "findOne (\<lambda>t. t_id t = taskId) tasks = Some task"
    and "findOne (\<lambda>u. u_id u = t_assignedBy task) users = Some ub"
    and "findOne (\<lambda>u. u_id u = t_assignedTo task) users = Some ua"
    and "status_of_string (sb_status body) = Some T"
    and "opt_trim_length 0 200 (sb_comment body)"
    and "opt_trim_length 0 500 (sb_rejectionReason body)"
    and "owning_manager actor ua \<longrightarrow> u_id actor = t_assignedBy task"
  shows "if spec_allowed_actor T actor task ua
         then \<exists>t'. fst (put_status rq actor taskId body (users, tasks, logs)) = Ok200 t' \<and>
                    t_id t' = t_id task \<and> t_status t' = T
         else put_status rq actor taskId body (users, tasks, logs) = (Forbidden403, tasks, logs)"
  using assms(1,4,5,6)
  by (simp add: put_status_def Let_def populate_found[OF assms(2)] populate_found[OF assms(3)]
        hasPermission_resolved[OF assms(7)] notified_ref_ok_def status_updateStatus id_updateStatus
        split: option.splits)

text \<open>
  Claim C1 as stated fails: \<open>approved\<close> requested by the administrator on a pending
  task is no edge of the specification's table, and the handler answers \<open>200\<close> with the
  task approved.
\<close>

theorem approve_pending_cex:
  "t_status report_task = pending \<and>
   \<not> spec_transition_table pending approved \<and>
   (\<exists>t'. fst (put_status (req_at 1000) admin 7 (status_req ''approved'' None)
                (staff, [report_task], [])) = Ok200 t' \<and> t_status t' = approved)"
  by (simp add: spec_transition_table_def put_status_def Let_def status_req_def
        status_of_string_def opt_trim_length_def findOne_def report_task_def staff_def
        admin_def mike_def ann_def populate_def hasPermission_def or_else_def ref_is_def
        manager_of_def notified_ref_ok_def status_updateStatus req_at_def)

theorem transition_decided_by_actor_and_target_witness:
  "findOne (\<lambda>t. t_id t = 7) [report_task] = Some report_task \<and>
   findOne (\<lambda>u. u_id u = t_assignedBy report_task) staff = Some mike \<and>
   findOne (\<lambda>u. u_id u = t_assignedTo report_task) staff = Some ann \<and>
   status_of_string (sb_status (status_req ''approved'' None)) = Some approved \<and>
   \<not> owning_manager admin ann \<and>
   spec_allowed_actor approved admin report_task ann \<and>
   \<not> spec_allowed_actor approved ann report_task ann \<and>
   (\<exists>t'. fst (put_status (req_at 1000) admin 7 (status_req ''approved'' None)
                (staff, [report_task], [])) = Ok200 t' \<and> t_id t' = 7 \<and> t_status t' = approved) \<and>
   put_status (req_at 1000) ann 7 (status_req ''approved'' None) (staff, [report_task], [])
     = (Forbidden403, [report_task], [])"
proof -
  have h1: "findOne (\<lambda>t. t_id t = 7) [report_task] = Some report_task"
    by (simp add: findOne_def report_task_def)
  have h2: "findOne (\<lambda>u. u_id u = t_assignedBy report_task) staff = Some mike"
    by (simp add: findOne_def report_task_def staff_def admin_def mike_def)
  have h3: "findOne (\<lambda>u. u_id u = t_assignedTo report_task) staff = Some ann"
    by (simp add: findOne_def report_task_def staff_def admin_def mike_def ann_def)
  have h4: "status_of_string (sb_status (status_req ''approved'' None)) = Some approved"
    by (simp add: status_req_def status_of_string_def)
  have h5: "opt_trim_length 0 200 (sb_comment (status_req ''approved'' None))"
    by (simp add: status_req_def opt_trim_length_def)
  have h6: "opt_trim_length 0 500 (sb_rejectionReason (status_req ''approved'' None))"
    by (simp add: status_req_def opt_trim_length_def)
  have n1: "\<not> owning_manager admin ann" by (simp add: owning_manager_def admin_def)
  have n2: "\<not> owning_manager ann ann" by (simp add: owning_manager_def ann_def)
  have a1: "spec_allowed_actor approved admin report_task ann"
    by (simp add: spec_allowed_actor_def admin_def)
  have a2: "\<not> spec_allowed_actor approved ann report_task ann"
    by (simp add: spec_allowed_actor_def owning_manager_def ann_def report_task_def)
  have i: "t_id report_task = 7" by (simp add: report_task_def)
  from transition_decided_by_actor_and_target[OF h1 h2 h3 h4 h5 h6, of admin "req_at 1000" "[]"] n1 a1
  have c1: "\<exists>t'. fst (put_status (req_at 1000) admin 7 (status_req ''approved'' None)
                (staff, [report_task], [])) = Ok200 t' \<and> t_id t' = 7 \<and> t_status t' = approved"
    by (simp add: i)
  from transition_decided_by_actor_and_target[OF h1 h2 h3 h4 h5 h6, of ann "req_at 1000" "[]"] n2 a2
  have c2: "put_status (req_at 1000) ann 7 (status_req ''approved'' None) (staff, [report_task], [])
     = (Forbidden403, [report_task], [])"
    by simp
  show ?thesis using h1 h2 h3 h4 n1 a1 a2 c1 c2 by simp
qed


subsection \<open>Rejection reasons and timestamps\<close>

lemma find_save_task:
  "findOne (\<lambda>t. t_id t = i) tasks = Some t \<Longrightarrow> t_id t' = i \<Longrightarrow>
   findOne (\<lambda>t. t_id t = i) (save_task t' tasks) = Some t'"
  unfolding findOne_def save_task_def
  by (induction tasks) (auto split: if_splits)

lemma rejectionReason_updateStatus:
  "t_rejectionReason (updateStatus now T a c t) = t_rejectionReason t"
  by (simp add: updateStatus_def pre_save_def Let_def)

lemma completedAt_updateStatus:
  "t_completedAt (updateStatus now T a c t) =
     (if T = completed \<and> t_status t \<noteq> completed \<and> t_completedAt t = None
      then Some now else t_completedAt t)"
  by (simp add: updateStatus_def pre_save_def Let_def)

lemma approvedAt_updateStatus:
  "t_approvedAt (updateStatus now T a c t) = (if T = approved then Some now else t_approvedAt t)"
  by (simp add: updateStatus_def pre_save_def Let_def)

lemma hasPermission_may_reject:
  assumes "u_role actor = super_admin \<or> u_id actor = t_assignedBy task"
  shows "hasPermission rejected actor
           (Some \<lparr> r_id = t_assignedBy task, r_name = n1, r_email = e1, r_role = r1, r_managerId = None \<rparr>)
           (Some \<lparr> r_id = t_assignedTo task, r_name = n2, r_email = e2, r_role = r2, r_managerId = None \<rparr>)
         = Some True"
  using assms
  by (auto simp: hasPermission_def or_else_def ref_is_def manager_of_def manages_def)

text \<open>
  Claim C2, as amended. A request for \<open>rejected\<close> by an actor who may reject (the
  administrator or the task's \<open>assignedBy\<close>) never fails for want of a reason. It
  succeeds on a task in any status, stores the task as rejected, and the stored
  \<open>rejectionReason\<close> is the trimmed reason when that is not empty and the reason the task
  had before when the request carries none or one that is empty after trimming. (A reason
  longer than 500 characters after trimming is the one case answered \<open>400\<close>.)
\<close>

theorem reject_reason_optional:
  assumes "findOne (\<lambda>t. t_id t = taskId) tasks = Some task"
    and "findOne (\<lambda>u. u_id u = t_assignedBy task) users = Some ub"
    and "findOne (\<lambda>u. u_id u = t_assignedTo task) users = Some ua"
    and "sb_status body = ''rejected''"
    and "opt_trim_length 0 200 (sb_comment body)"
    and "opt_trim_length 0 500 (sb_rejectionReason body)"
    and "u_role actor = super_admin \<or> u_id actor = t_assignedBy task"
  shows "\<exists>t' logs'. put_status rq actor taskId body (users, tasks, logs) =
                      (Ok200 t', save_task t' tasks, logs') \<and>
           findOne (\<lambda>t. t_id t = taskId) (save_task t' tasks) = Some t' \<and>
           t_status t' = rejected \<and>
           t_rejectionReason t' =
             (case sb_rejectionReason body of
                None \<Rightarrow> t_rejectionReason task
              | Some r \<Rightarrow> if trim r = [] then t_rejectionReason task else Some (trim r))"
proof -
  define task1 where "task1 =
     (case sb_rejectionReason body of
        None \<Rightarrow> task
      | Some r \<Rightarrow> if trim r = [] then task else task\<lparr>t_rejectionReason := Some (trim r)\<rparr>)"
  define t' where
    "t' = updateStatus (rq_now rq) rejected (u_id actor) (map_option trim (sb_comment body)) task1"
  have st: "status_of_string (sb_status body) = Some rejected"
    using assms(4) by (simp add: status_of_string_def)
  have tid: "t_id task = taskId"
    using assms(1) by (auto simp: findOne_def find_Some_iff)
  have id1: "t_id task1 = taskId"
    using tid by (simp add: task1_def split: option.splits)
  have p: "\<exists>logs'. put_status rq actor taskId body (users, tasks, logs) =
                      (Ok200 t', save_task t' tasks, logs')"
    using assms(1,5,6) st
    by (cases "sb_rejectionReason body")
       (simp_all add: put_status_def Let_def populate_found[OF assms(2)] populate_found[OF assms(3)]
          hasPermission_may_reject[OF assms(7)] notified_ref_ok_def t'_def task1_def)
  have f: "findOne (\<lambda>t. t_id t = taskId) (save_task t' tasks) = Some t'"
    by (rule find_save_task[OF assms(1)]) (simp add: t'_def id_updateStatus id1)
  have r: "t_rejectionReason t' =
             (case sb_rejectionReason body of
                None \<Rightarrow> t_rejectionReason task
              | Some r \<Rightarrow> if trim r = [] then t_rejectionReason task else Some (trim r))"
    by (simp add: t'_def task1_def rejectionReason_updateStatus split: option.splits)
  have s: "t_status t' = rejected" by (simp add: t'_def status_updateStatus)
  from p f r s show ?thesis by blast
qed

lemmas example_defs =
  staff_def admin_def mike_def ann_def report_task_def finished_task_def approved_task_def
  reopened_task_def status_req_def req_at_def

lemmas put_status_eval =
  put_status_def Let_def status_of_string_def opt_trim_length_def findOne_def populate_def
  hasPermission_def or_else_def ref_is_def manager_of_def manages_def notified_ref_ok_def
  updateStatus_def pre_save_def save_task_def

text \<open>
  Claim C2 as stated fails: the administrator rejects a completed task without a reason;
  the handler answers \<open>200\<close> and stores the task as rejected, with no reason.
\<close>

theorem reject_without_reason_cex:
  "t_status finished_task = completed \<and>
   sb_rejectionReason (status_req ''rejected'' None) = None \<and>
   (\<exists>t' logs'. put_status (req_at 1000) admin 7 (status_req ''rejected'' None)
                  (staff, [finished_task], []) = (Ok200 t', [t'], logs') \<and>
               t_status t' = rejected \<and> t_rejectionReason t' = None)"
  by (simp add: put_status_eval example_defs)

theorem reject_reason_optional_witness:
  "findOne (\<lambda>t. t_id t = 7) [finished_task] = Some finished_task \<and>
   findOne (\<lambda>u. u_id u = t_assignedBy finished_task) staff = Some mike \<and>
   findOne (\<lambda>u. u_id u = t_assignedTo finished_task) staff = Some ann \<and>
   u_id mike = t_assignedBy finished_task \<and>
   (\<exists>t' logs'. put_status (req_at 1000) mike 7 (status_req ''rejected'' (Some '' typos ''))
                  (staff, [finished_task], []) = (Ok200 t', save_task t' [finished_task], logs') \<and>
               t_status t' = rejected \<and> t_rejectionReason t' = Some ''typos'')"
proof -
  let ?body = "status_req ''rejected'' (Some '' typos '')"
  have h1: "findOne (\<lambda>t. t_id t = 7) [finished_task] = Some finished_task"
    by (simp add: findOne_def example_defs)
  have h2: "findOne (\<lambda>u. u_id u = t_assignedBy finished_task) staff = Some mike"
    by (simp add: findOne_def example_defs)
  have h3: "findOne (\<lambda>u. u_id u = t_assignedTo finished_task) staff = Some ann"
    by (simp add: findOne_def example_defs)
  have h4: "sb_status ?body = ''rejected''" by (simp add: status_req_def)
  have h5: "opt_trim_length 0 200 (sb_comment ?body)"
    by (simp add: status_req_def opt_trim_length_def)
  have tr: "trim '' typos '' = ''typos''" by (simp add: trim_def is_space_def)
  have h6: "opt_trim_length 0 500 (sb_rejectionReason ?body)"
    by (simp add: status_req_def opt_trim_length_def tr)
  have h7: "u_role mike = super_admin \<or> u_id mike = t_assignedBy finished_task"
    by (simp add: example_defs)
  have h7': "u_id mike = t_assignedBy finished_task" by (simp add: example_defs)
  have rr: "sb_rejectionReason ?body = Some '' typos ''" by (simp add: status_req_def)
  from reject_reason_optional[OF h1 h2 h3 h4 h5 h6 h7, of "req_at 1000" "[]"]
  have "\<exists>t' logs'. put_status (req_at 1000) mike 7 ?body (staff, [finished_task], [])
                     = (Ok200 t', save_task t' [finished_task], logs') \<and>
               t_status t' = rejected \<and> t_rejectionReason t' = Some ''typos''"
    unfolding rr by (auto simp: tr)
  with h1 h2 h3 h7' show ?thesis by simp
qed

text \<open>
  Claim C3 fails on the code for \<open>approvedAt\<close>. The hook guards both timestamps with
  \<open>!this.approvedAt\<close> and \<open>!this.completedAt\<close>, but \<open>updateStatus\<close> assigns
  \<open>approvedAt\<close> before the hook runs, on every approval. A task approved at instant 600
  is approved again at instant 2000, directly or after a reset to pending: the stored
  \<open>approvedAt\<close> becomes 2000.
\<close>

theorem approvedAt_overwritten:
  "t_approvedAt approved_task = Some 600 \<and>
   (\<exists>t' logs'. put_status (req_at 2000) admin 7 (status_req ''approved'' None)
                  (staff, [approved_task], []) = (Ok200 t', [t'], logs') \<and>
               t_approvedAt t' = Some 2000) \<and>
   t_approvedAt reopened_task = Some 600 \<and>
   (\<exists>t' logs'. put_status (req_at 2000) mike 7 (status_req ''approved'' None)
                  (staff, [reopened_task], []) = (Ok200 t', [t'], logs') \<and>
               t_status t' = approved \<and> t_approvedAt t' = Some 2000)"
  by (simp add: put_status_eval example_defs)

text \<open>\<open>completedAt\<close> is kept: the hook's guard is the only assignment to it.\<close>

lemma completedAt_kept:
  assumes "findOne (\<lambda>t. t_id t = taskId) tasks = Some task"
    and "t_completedAt task = Some c"
    and "fst (put_status rq actor taskId body (users, tasks, logs)) = Ok200 t'"
  shows "t_completedAt t' = Some c"
  using assms
  by (auto simp: put_status_def Let_def completedAt_updateStatus
           split: option.splits if_splits bool.splits)

subsection \<open>The task update route\<close>

lemmas put_task_eval =
  put_task_def Let_def task_update_valid_def v_trim_length_def v_isISO8601_def v_isIn_def
  v_isFloat_min0_def v_isArray_def v_pred_def sanitize_value_def sanitize_trim_def findOne_def populate_def canEdit_def
  or_else_def ref_is_def manager_of_def manages_def employee_on_own_task_def

text \<open>
  Claim C6 fails on the code. \<open>canEdit\<close> admits the administrator, the task's
  \<open>assignedBy\<close> and a Manager whose id equals the populated assignee's \<open>managerId\<close>; the
  assignee is not among them. So the employee Ann, on the task assigned to her, is refused
  a patch that holds only \<open>actualHours\<close>: the allow-list for employees is behind a gate
  that only an employee who assigned the task passes.
\<close>

theorem assignee_cannot_log_hours:
  "u_role ann = employee \<and> t_assignedTo report_task = u_id ann \<and>
   put_task L assign (req_at 1000) ann 7 [(''actualHours'', JNum 5)] (staff, [report_task], [])
     = (Forbidden403, [report_task], [])"
  by (simp add: put_task_eval staff_def admin_def mike_def ann_def report_task_def
        req_at_def)

text \<open>
  Mike, the Manager who owns Ann, is refused a patch of the title of the task the
  administrator assigned to her.
\<close>

lemma owning_manager_cannot_edit:
  "u_role mike = manager \<and> u_managerId ann = Some (u_id mike) \<and>
   t_assignedTo admin_task = u_id ann \<and>
   put_task L assign (req_at 1000) mike 7 [(''title'', JStr ''Annual report'')] (staff, [admin_task], [])
     = (Forbidden403, [admin_task], [])"
  by (simp add: put_task_eval staff_def admin_def mike_def ann_def report_task_def admin_task_def
        req_at_def trim_def is_space_def)

lemma canEdit_employee:
  assumes "u_role actor = employee" and "u_id actor \<noteq> i"
  shows "canEdit actor (populate sel users i) assignedTo \<noteq> Some True"
proof (cases "findOne (\<lambda>u. u_id u = i) users")
  case None
  with assms show ?thesis
    by (simp add: canEdit_def or_else_def ref_is_def populate_def)
next
  case (Some u)
  then have "u_id u = i" by (rule findOne_id)
  with Some assms show ?thesis
    by (auto simp: canEdit_def or_else_def ref_is_def populate_def manager_of_def)
qed

lemma employee_needs_assignedBy:
  assumes "u_role actor = employee" and "findOne (\<lambda>t. t_id t = taskId) tasks = Some task"
    and "u_id actor \<noteq> t_assignedBy task"
  shows "fst (put_task L assign rq actor taskId body (users, tasks, logs)) \<noteq> Ok200 t'"
  using assms(2) canEdit_employee[OF assms(1,3)]
  by (auto simp: put_task_def Let_def split: option.splits bool.splits)


subsection \<open>The audit routes\<close>

lemma matches_security_filter:
  "matches (security_filter since) e \<longleftrightarrow> security_relevant e \<and> since \<le> ae_createdAt e"
  by (auto simp: matches_def security_filter_def security_relevant_def security_actions_def)

lemma afind_security:
  "afind (security_filter since) store =
     filter (\<lambda>e. security_relevant e \<and> since \<le> ae_createdAt e) store"
  unfolding afind_def by (rule filter_cong) (simp_all add: matches_security_filter)

lemma authorize_super_admin:
  "u_role actor = super_admin \<Longrightarrow> authorize [super_admin] url m rq actor store = (True, store)"
  by (simp add: authorize_def)

lemma mset_sort_newest: "mset (sort_newest es) = mset es"
  by (simp add: sort_newest_def)

lemma sorted_sort_newest: "sorted (map (\<lambda>e. - ae_createdAt e) (sort_newest es))"
  by (simp add: sort_newest_def)

lemma sorted_take_drop:
  "sorted (map f xs) \<Longrightarrow> sorted (map f (take n (drop k xs)))"
  by (simp add: take_map[symmetric] drop_map[symmetric] sorted_wrt_take sorted_wrt_drop)

text \<open>
  Claim C7, as amended. For the administrator and valid parameters the route answers with
  the requested page of the entries that are security-relevant and were created within
  the trailing window of \<open>hours\<close> hours (24 when absent), newest first; the total counts
  exactly these entries; every returned entry is one of them; and when the first page
  holds them all, the returned entries are exactly these entries.
\<close>

theorem security_query_page:
  assumes "u_role actor = super_admin"
    and "q_isInt 1 None qpage" and "q_isInt 1 (Some 100) qlimit" and "q_isInt 1 (Some 168) qhours"
    and "page = q_parseInt_or qpage 1" and "limit = q_parseInt_or qlimit 50"
    and "since = rq_now rq - q_parseInt_or qhours 24 * 60 * 60 * 1000"
    and "hits = filter (\<lambda>e. security_relevant e \<and> since \<le> ae_createdAt e) store"
  shows "\<exists>p store'. get_security rq actor qpage qlimit qhours store = (Ok200 p, store') \<and>
           sp_total p = length hits \<and>
           sp_logs p = take (nat limit) (drop (nat ((page - 1) * limit)) (sort_newest hits)) \<and>
           set (sp_logs p) \<subseteq> set hits \<and>
           sorted (map (\<lambda>e. - ae_createdAt e) (sp_logs p)) \<and>
           length (sp_logs p) \<le> nat limit \<and>
           (page = 1 \<and> int (length hits) \<le> limit \<longrightarrow> mset (sp_logs p) = mset hits)"
proof -
  let ?logs = "take (nat limit) (drop (nat ((page - 1) * limit)) (sort_newest hits))"
  have g: "\<exists>store'. get_security rq actor qpage qlimit qhours store =
            (Ok200 \<lparr> sp_logs = ?logs, sp_current = page,
                     sp_pages = ceil_div (int (length hits)) limit, sp_total = length hits,
                     sp_limit = limit, sp_timeframe = timeframe (q_parseInt_or qhours 24) \<rparr>, store')"
    using assms
    by (simp add: get_security_def authorize_super_admin Let_def afind_security countDocuments_def)
  have s1: "set ?logs \<subseteq> set hits"
  proof -
    have "set ?logs \<subseteq> set (sort_newest hits)"
      by (meson set_take_subset set_drop_subset subset_trans)
    also have "\<dots> = set hits" by (simp add: sort_newest_def)
    finally show ?thesis .
  qed
  have s2: "sorted (map (\<lambda>e. - ae_createdAt e) ?logs)"
    by (rule sorted_take_drop) (rule sorted_sort_newest)
  have s3: "length ?logs \<le> nat limit" by simp
  have s4: "mset ?logs = mset hits" if "page = 1" "int (length hits) \<le> limit"
  proof -
    have "length (sort_newest hits) \<le> nat limit"
      using that by (simp add: sort_newest_def)
    then have "?logs = sort_newest hits" using that by simp
    then show ?thesis by (simp add: mset_sort_newest)
  qed
  from g s1 s2 s3 s4 show ?thesis by auto
qed

lemmas entry_defs = old_entry_def recent_entry_def plain_entry_def grave_entry_def

text \<open>
  Claim C7 as stated fails: a security-relevant entry older than the window is stored and
  not returned.
\<close>

theorem security_query_window_cex:
  "security_relevant old_entry \<and> old_entry \<in> set [old_entry] \<and>
   (\<exists>p store'. get_security (req_at 100000000) admin QAbsent QAbsent QAbsent [old_entry]
                  = (Ok200 p, store') \<and> sp_logs p = [])"
  by (simp add: security_relevant_def entry_defs get_security_def authorize_def admin_def
        q_isInt_def q_parseInt_or_def Let_def afind_def matches_def security_filter_def
        security_actions_def sort_newest_def req_at_def)

text \<open>
  The model's static \<open>getSecurityLogs\<close>, which no route calls, has only the first three
  clauses of the disjunction.
\<close>

lemma getSecurityLogs_without_severity:
  "security_relevant grave_entry \<and> getSecurityLogs 100 [grave_entry] = []"
  by (simp add: security_relevant_def entry_defs getSecurityLogs_def afind_def matches_def
        security_actions_def sort_newest_def)

theorem security_query_page_witness:
  "u_role admin = super_admin \<and> q_isInt 1 None QAbsent \<and> q_isInt 1 (Some 100) QAbsent \<and>
   q_isInt 1 (Some 168) QAbsent \<and>
   [recent_entry] = filter (\<lambda>e. security_relevant e \<and> 13600000 \<le> ae_createdAt e)
                      [old_entry, recent_entry, plain_entry] \<and>
   (\<exists>p store'. get_security (req_at 100000000) admin QAbsent QAbsent QAbsent
                  [old_entry, recent_entry, plain_entry] = (Ok200 p, store') \<and>
               sp_total p = 1 \<and> sp_logs p = [recent_entry])"
proof -
  have h1: "u_role admin = super_admin" by (simp add: admin_def)
  have h2: "q_isInt 1 None QAbsent" "q_isInt 1 (Some 100) QAbsent" "q_isInt 1 (Some 168) QAbsent"
    by (simp_all add: q_isInt_def)
  have h5: "(1::int) = q_parseInt_or QAbsent 1" "(50::int) = q_parseInt_or QAbsent 50"
    by (simp_all add: q_parseInt_or_def)
  have h7: "(13600000::int) = rq_now (req_at 100000000) - q_parseInt_or QAbsent 24 * 60 * 60 * 1000"
    by (simp add: q_parseInt_or_def req_at_def)
  have h8: "[recent_entry] = filter (\<lambda>e. security_relevant e \<and> 13600000 \<le> ae_createdAt e)
                      [old_entry, recent_entry, plain_entry]"
    by (simp add: security_relevant_def entry_defs)
  have s: "sort_newest [recent_entry] = [recent_entry]" by (simp add: sort_newest_def)
  from security_query_page[OF h1 h2 h5 h7 h8]
  have "\<exists>p store'. get_security (req_at 100000000) admin QAbsent QAbsent QAbsent
                  [old_entry, recent_entry, plain_entry] = (Ok200 p, store') \<and>
               sp_total p = 1 \<and> sp_logs p = [recent_entry]"
    by (auto simp: s)
  with h1 h2 h8 show ?thesis by simp
qed

lemma matches_cleanup_filter:
  "matches (cleanup_filter cutoff) e \<longleftrightarrow>
     ae_createdAt e < cutoff \<and> ae_severity e \<noteq> ''high'' \<and> ae_severity e \<noteq> ''critical''"
  by (auto simp: matches_def cleanup_filter_def)

lemma deleteMany_cleanup:
  "deleteMany (cleanup_filter cutoff) store =
     (filter (\<lambda>e. \<not> (ae_createdAt e < cutoff \<and> ae_severity e \<noteq> ''high'' \<and>
                      ae_severity e \<noteq> ''critical'')) store,
      length (filter (\<lambda>e. ae_createdAt e < cutoff \<and> ae_severity e \<noteq> ''high'' \<and>
                      ae_severity e \<noteq> ''critical'') store))"
proof -
  have a: "filter (\<lambda>e. \<not> matches (cleanup_filter cutoff) e) store =
        filter (\<lambda>e. \<not> (ae_createdAt e < cutoff \<and> ae_severity e \<noteq> ''high'' \<and>
                      ae_severity e \<noteq> ''critical'')) store"
    by (rule filter_cong) (simp_all add: matches_cleanup_filter)
  have b: "filter (matches (cleanup_filter cutoff)) store =
        filter (\<lambda>e. ae_createdAt e < cutoff \<and> ae_severity e \<noteq> ''high'' \<and>
                      ae_severity e \<noteq> ''critical'') store"
    by (rule filter_cong) (simp_all add: matches_cleanup_filter)
  show ?thesis by (simp add: deleteMany_def afind_def a b)
qed

lemma cleanup_log_valid:
  "rq_ip rq = Some ip \<Longrightarrow> ip \<noteq> [] \<Longrightarrow> audit_validate (cleanup_log rq actor cutoff n days)"
  by (simp add: audit_validate_def cleanup_log_def log_base_def required_enum_def
        required_string_def optional_enum_def action_enum_def resource_enum_def
        severity_enum_def category_enum_def)

text \<open>
  Claim C8. For the administrator and a \<open>days\<close> parameter the route accepts (absent, read
  as 90, or between 30 and 365), with the audit write going through: the retention window
  is at least 30 days; the route deletes exactly the entries created strictly before the
  cutoff whose severity is neither \<open>high\<close> nor \<open>critical\<close>, keeps all others in place
  and order, and appends exactly one entry, which records the cutoff, the number deleted
  and the retention days. A parameter below 30 is refused and nothing is deleted.
\<close>

theorem cleanup_removes_old_ordinary_entries:
  assumes "u_role actor = super_admin"
    and "q_isInt 30 (Some 365) qdays"
    and "rq_audit_ok rq" and "rq_ip rq = Some ip" and "ip \<noteq> []"
    and "days = q_parseInt_or qdays 90"
    and "cutoff = rq_now rq - days * 24 * 60 * 60 * 1000"
    and "doomed = filter (\<lambda>e. ae_createdAt e < cutoff \<and> ae_severity e \<noteq> ''high'' \<and>
                               ae_severity e \<noteq> ''critical'') store"
    and "kept = filter (\<lambda>e. \<not> (ae_createdAt e < cutoff \<and> ae_severity e \<noteq> ''high'' \<and>
                               ae_severity e \<noteq> ''critical'')) store"
  shows "30 \<le> days \<and>
         (\<exists>entry. delete_cleanup rq actor qdays store =
            (Ok200 \<lparr> cr_logsDeleted = length doomed, cr_cutoffDate = cutoff,
                     cr_retentionDays = days \<rparr>, kept @ [entry]) \<and>
            ae_user entry = u_id actor \<and> ae_createdAt entry = rq_now rq \<and>
            ae_details entry =
              [(''action'', JStr ''audit_log_cleanup''), (''cutoffDate'', JDate cutoff),
               (''logsDeleted'', JNum (int (length doomed))), (''retentionDays'', JNum days)]) \<and>
         (\<forall>e\<in>set store. ae_severity e = ''high'' \<or> ae_severity e = ''critical'' \<or>
                          cutoff \<le> ae_createdAt e \<longrightarrow> e \<in> set kept) \<and>
         (\<forall>e\<in>set doomed. e \<notin> set kept) \<and>
         (\<forall>d<30. delete_cleanup rq actor (QInt d) store = (BadRequest400, store))"
proof -
  have d30: "30 \<le> days"
    using assms(2,6) by (auto simp: q_isInt_def q_parseInt_or_def split: qparam.splits)
  let ?entry = "audit_doc (rq_now rq) (cleanup_log rq actor cutoff (length doomed) days)"
  have run: "delete_cleanup rq actor qdays store =
            (Ok200 \<lparr> cr_logsDeleted = length doomed, cr_cutoffDate = cutoff,
                     cr_retentionDays = days \<rparr>, kept @ [?entry])"
    unfolding assms(8,9) assms(7) assms(6)
    using assms(1,2,3) cleanup_log_valid[OF assms(4,5)]
    by (simp add: delete_cleanup_def authorize_super_admin Let_def deleteMany_cleanup
          audit_def logAction_def audit_save_def)
  have e: "ae_user ?entry = u_id actor" "ae_createdAt ?entry = rq_now rq"
    "ae_details ?entry =
              [(''action'', JStr ''audit_log_cleanup''), (''cutoffDate'', JDate cutoff),
               (''logsDeleted'', JNum (int (length doomed))), (''retentionDays'', JNum days)]"
    by (simp_all add: audit_doc_def cleanup_log_def log_base_def)
  have k: "\<forall>e\<in>set store. ae_severity e = ''high'' \<or> ae_severity e = ''critical'' \<or>
                          cutoff \<le> ae_createdAt e \<longrightarrow> e \<in> set kept"
    by (auto simp: assms(9))
  have g: "\<forall>e\<in>set doomed. e \<notin> set kept"
    by (auto simp: assms(8,9))
  have b: "\<forall>d<30. delete_cleanup rq actor (QInt d) store = (BadRequest400, store)"
    using assms(1) by (simp add: delete_cleanup_def authorize_super_admin q_isInt_def)
  from d30 run e k g b show ?thesis by blast
qed

theorem cleanup_removes_old_ordinary_entries_witness:
  "u_role admin = super_admin \<and> q_isInt 30 (Some 365) (QInt 30) \<and>
   rq_audit_ok (req_at 2600000000) \<and> rq_ip (req_at 2600000000) = Some ''10.0.0.7'' \<and>
   (\<exists>entry. delete_cleanup (req_at 2600000000) admin (QInt 30)
                [old_entry, grave_entry, plain_entry] =
              (Ok200 \<lparr> cr_logsDeleted = 1, cr_cutoffDate = 8000000, cr_retentionDays = 30 \<rparr>,
               [grave_entry, plain_entry, entry]) \<and>
            ae_createdAt entry = 2600000000) \<and>
   delete_cleanup (req_at 2600000000) admin (QInt 29) [old_entry, grave_entry, plain_entry]
     = (BadRequest400, [old_entry, grave_entry, plain_entry])"
proof -
  let ?rq = "req_at 2600000000"
  let ?store = "[old_entry, grave_entry, plain_entry]"
  have h1: "u_role admin = super_admin" by (simp add: admin_def)
  have h2: "q_isInt 30 (Some 365) (QInt 30)" by (simp add: q_isInt_def)
  have h3: "rq_audit_ok ?rq" by (simp add: req_at_def)
  have h4: "rq_ip ?rq = Some ''10.0.0.7''" by (simp add: req_at_def)
  have h5: "''10.0.0.7'' \<noteq> []" by simp
  have h6: "(30::int) = q_parseInt_or (QInt 30) 90" by (simp add: q_parseInt_or_def)
  have h7: "(8000000::int) = rq_now ?rq - 30 * 24 * 60 * 60 * 1000" by (simp add: req_at_def)
  have h8: "[old_entry] = filter (\<lambda>e. ae_createdAt e < 8000000 \<and> ae_severity e \<noteq> ''high'' \<and>
                               ae_severity e \<noteq> ''critical'') ?store"
    by (simp add: entry_defs)
  have h9: "[grave_entry, plain_entry] =
              filter (\<lambda>e. \<not> (ae_createdAt e < 8000000 \<and> ae_severity e \<noteq> ''high'' \<and>
                               ae_severity e \<noteq> ''critical'')) ?store"
    by (simp add: entry_defs)
  note c = cleanup_removes_old_ordinary_entries[OF h1 h2 h3 h4 h5 h6 h7 h8 h9]
  from c have c1: "\<exists>entry. delete_cleanup ?rq admin (QInt 30) ?store =
              (Ok200 \<lparr> cr_logsDeleted = 1, cr_cutoffDate = 8000000, cr_retentionDays = 30 \<rparr>,
               [grave_entry, plain_entry, entry]) \<and>
            ae_createdAt entry = 2600000000"
    by (auto simp: req_at_def)
  from c have c2: "delete_cleanup ?rq admin (QInt 29) ?store = (BadRequest400, ?store)"
    by simp
  from h1 h2 h3 h4 c1 c2 show ?thesis by simp
qed


subsection \<open>The user update route\<close>






lemma keys_delete_key: "k \<notin> fst ` set (delete_key k xs)"
  by (auto simp: delete_key_def)

lemma keys_delete_key_subset: "fst ` set (delete_key k xs) \<subseteq> fst ` set xs"
  by (auto simp: delete_key_def)














































subsection \<open>Audit failures\<close>

lemma logAction_storage_failure:
  "logAction False now store d = (store, None)"
  by (simp add: logAction_def audit_save_def)

lemma login_audit_indep:
  "fst (login L cfg (rq\<lparr>rq_audit_ok := b\<rparr>) body db) = fst (login L cfg rq body db) \<and>
   fst (snd (login L cfg (rq\<lparr>rq_audit_ok := b\<rparr>) body db)) = fst (snd (login L cfg rq body db))"
  by (simp add: login_def Let_def split: option.splits)

lemma put_status_audit_indep:
  "fst (put_status (rq\<lparr>rq_audit_ok := b\<rparr>) actor taskId body db) = fst (put_status rq actor taskId body db) \<and>
   fst (snd (put_status (rq\<lparr>rq_audit_ok := b\<rparr>) actor taskId body db)) =
     fst (snd (put_status rq actor taskId body db))"
  by (simp add: put_status_def Let_def split: option.splits bool.splits)

lemma put_task_audit_indep:
  "fst (put_task L assign (rq\<lparr>rq_audit_ok := b\<rparr>) actor taskId body db) = fst (put_task L assign rq actor taskId body db) \<and>
   fst (snd (put_task L assign (rq\<lparr>rq_audit_ok := b\<rparr>) actor taskId body db)) =
     fst (snd (put_task L assign rq actor taskId body db))"
  by (simp add: put_task_def Let_def
        option.case_distrib[of fst] option.case_distrib[of snd]
        bool.case_distrib[of fst] bool.case_distrib[of snd]
        if_distrib[of fst] if_distrib[of snd]
        cong: option.case_cong bool.case_cong if_cong)

lemma put_user_audit_indep:
  "fst (put_user L em (rq\<lparr>rq_audit_ok := b\<rparr>) actor userId q body db) = fst (put_user L em rq actor userId q body db) \<and>
   fst (snd (put_user L em (rq\<lparr>rq_audit_ok := b\<rparr>) actor userId q body db)) =
     fst (snd (put_user L em rq actor userId q body db))"
  by (simp add: put_user_def Let_def
        option.case_distrib[of fst] option.case_distrib[of snd]
        response.case_distrib[of fst] response.case_distrib[of snd]
        bool.case_distrib[of fst] bool.case_distrib[of snd]
        if_distrib[of fst] if_distrib[of snd]
        cong: option.case_cong response.case_cong bool.case_cong if_cong)

lemma authorize_audit_indep:
  "fst (authorize roles url m (rq\<lparr>rq_audit_ok := b\<rparr>) actor store) = fst (authorize roles url m rq actor store) \<and>
   (fst (authorize roles url m rq actor store) \<longrightarrow>
      snd (authorize roles url m (rq\<lparr>rq_audit_ok := b\<rparr>) actor store) = store \<and>
      snd (authorize roles url m rq actor store) = store)"
  by (simp add: authorize_def)

lemma delete_cleanup_audit_indep:
  "fst (delete_cleanup (rq\<lparr>rq_audit_ok := b\<rparr>) actor qdays store) = fst (delete_cleanup rq actor qdays store)"
  by (simp add: delete_cleanup_def authorize_def Let_def)

lemma get_security_audit_indep:
  "fst (get_security (rq\<lparr>rq_audit_ok := b\<rparr>) actor qp ql qh store) = fst (get_security rq actor qp ql qh store)"
  by (simp add: get_security_def authorize_def Let_def)

text \<open>
  Claim C5. Whatever error the save of an audit entry ends in, a failed validation or a
  storage that refuses the write, \<open>logAction\<close> catches it and returns \<open>null\<close> with
  the collection as it was. Each handler calls the recorder
  through \<open>logAction\<close> only, so for login, status transition, task update, user update,
  audit cleanup and the security query the answer, and the users or tasks it stores, are
  the same whether the audit write of the request fails or succeeds.
\<close>

theorem audit_failure_never_surfaces:
  "(audit_save io_ok now store d = Inl e \<longrightarrow> logAction io_ok now store d = (store, None)) \<and>
   logAction False now store d = (store, None) \<and>
   fst (login L cfg (rq\<lparr>rq_audit_ok := False\<rparr>) lbody udb) =
     fst (login L cfg (rq\<lparr>rq_audit_ok := True\<rparr>) lbody udb) \<and>
   fst (snd (login L cfg (rq\<lparr>rq_audit_ok := False\<rparr>) lbody udb)) =
     fst (snd (login L cfg (rq\<lparr>rq_audit_ok := True\<rparr>) lbody udb)) \<and>
   fst (put_status (rq\<lparr>rq_audit_ok := False\<rparr>) actor taskId sbody db) =
     fst (put_status (rq\<lparr>rq_audit_ok := True\<rparr>) actor taskId sbody db) \<and>
   fst (snd (put_status (rq\<lparr>rq_audit_ok := False\<rparr>) actor taskId sbody db)) =
     fst (snd (put_status (rq\<lparr>rq_audit_ok := True\<rparr>) actor taskId sbody db)) \<and>
   fst (put_task L assign (rq\<lparr>rq_audit_ok := False\<rparr>) actor taskId body db) =
     fst (put_task L assign (rq\<lparr>rq_audit_ok := True\<rparr>) actor taskId body db) \<and>
   fst (snd (put_task L assign (rq\<lparr>rq_audit_ok := False\<rparr>) actor taskId body db)) =
     fst (snd (put_task L assign (rq\<lparr>rq_audit_ok := True\<rparr>) actor taskId body db)) \<and>
   fst (put_user L em (rq\<lparr>rq_audit_ok := False\<rparr>) actor userId q body udb) =
     fst (put_user L em (rq\<lparr>rq_audit_ok := True\<rparr>) actor userId q body udb) \<and>
   fst (snd (put_user L em (rq\<lparr>rq_audit_ok := False\<rparr>) actor userId q body udb)) =
     fst (snd (put_user L em (rq\<lparr>rq_audit_ok := True\<rparr>) actor userId q body udb)) \<and>
   fst (delete_cleanup (rq\<lparr>rq_audit_ok := False\<rparr>) actor qdays store) =
     fst (delete_cleanup (rq\<lparr>rq_audit_ok := True\<rparr>) actor qdays store) \<and>
   fst (get_security (rq\<lparr>rq_audit_ok := False\<rparr>) actor qp ql qh store) =
     fst (get_security (rq\<lparr>rq_audit_ok := True\<rparr>) actor qp ql qh store)"
proof -
  have l: "fst (login L cfg (rq\<lparr>rq_audit_ok := b\<rparr>) lbody udb) = fst (login L cfg rq lbody udb)"
    "fst (snd (login L cfg (rq\<lparr>rq_audit_ok := b\<rparr>) lbody udb)) = fst (snd (login L cfg rq lbody udb))"
    for b using login_audit_indep[where rq=rq and b=b] by simp_all
  have s: "fst (put_status (rq\<lparr>rq_audit_ok := b\<rparr>) actor taskId sbody db) = fst (put_status rq actor taskId sbody db)"
    "fst (snd (put_status (rq\<lparr>rq_audit_ok := b\<rparr>) actor taskId sbody db)) =
       fst (snd (put_status rq actor taskId sbody db))"
    for b using put_status_audit_indep[where rq=rq and b=b] by simp_all
  have t: "fst (put_task L assign (rq\<lparr>rq_audit_ok := b\<rparr>) actor taskId body db) = fst (put_task L assign rq actor taskId body db)"
    "fst (snd (put_task L assign (rq\<lparr>rq_audit_ok := b\<rparr>) actor taskId body db)) =
       fst (snd (put_task L assign rq actor taskId body db))"
    for b using put_task_audit_indep[where rq=rq and b=b] by simp_all
  have u: "fst (put_user L em (rq\<lparr>rq_audit_ok := b\<rparr>) actor userId q body udb) =
       fst (put_user L em rq actor userId q body udb)"
    "fst (snd (put_user L em (rq\<lparr>rq_audit_ok := b\<rparr>) actor userId q body udb)) =
       fst (snd (put_user L em rq actor userId q body udb))"
    for b using put_user_audit_indep[where rq=rq and b=b] by simp_all
  have c: "audit_save io_ok now store d = Inl e \<longrightarrow> logAction io_ok now store d = (store, None)"
    by (simp add: logAction_def)
  have r: "logAction False now store d = (store, None) \<and>
   fst (login L cfg (rq\<lparr>rq_audit_ok := False\<rparr>) lbody udb) =
     fst (login L cfg (rq\<lparr>rq_audit_ok := True\<rparr>) lbody udb) \<and>
   fst (snd (login L cfg (rq\<lparr>rq_audit_ok := False\<rparr>) lbody udb)) =
     fst (snd (login L cfg (rq\<lparr>rq_audit_ok := True\<rparr>) lbody udb)) \<and>
   fst (put_status (rq\<lparr>rq_audit_ok := False\<rparr>) actor taskId sbody db) =
     fst (put_status (rq\<lparr>rq_audit_ok := True\<rparr>) actor taskId sbody db) \<and>
   fst (snd (put_status (rq\<lparr>rq_audit_ok := False\<rparr>) actor taskId sbody db)) =
     fst (snd (put_status (rq\<lparr>rq_audit_ok := True\<rparr>) actor taskId sbody db)) \<and>
   fst (put_task L assign (rq\<lparr>rq_audit_ok := False\<rparr>) actor taskId body db) =
     fst (put_task L assign (rq\<lparr>rq_audit_ok := True\<rparr>) actor taskId body db) \<and>
   fst (snd (put_task L assign (rq\<lparr>rq_audit_ok := False\<rparr>) actor taskId body db)) =
     fst (snd (put_task L assign (rq\<lparr>rq_audit_ok := True\<rparr>) actor taskId body db)) \<and>
   fst (put_user L em (rq\<lparr>rq_audit_ok := False\<rparr>) actor userId q body udb) =
     fst (put_user L em (rq\<lparr>rq_audit_ok := True\<rparr>) actor userId q body udb) \<and>
   fst (snd (put_user L em (rq\<lparr>rq_audit_ok := False\<rparr>) actor userId q body udb)) =
     fst (snd (put_user L em (rq\<lparr>rq_audit_ok := True\<rparr>) actor userId q body udb)) \<and>
   fst (delete_cleanup (rq\<lparr>rq_audit_ok := False\<rparr>) actor qdays store) =
     fst (delete_cleanup (rq\<lparr>rq_audit_ok := True\<rparr>) actor qdays store) \<and>
   fst (get_security (rq\<lparr>rq_audit_ok := False\<rparr>) actor qp ql qh store) =
     fst (get_security (rq\<lparr>rq_audit_ok := True\<rparr>) actor qp ql qh store)"
    by (simp only: l s t u delete_cleanup_audit_indep get_security_audit_indep
          logAction_storage_failure simp_thms)
  from c r show ?thesis by (rule conjI)
qed

theorem audit_failure_never_surfaces_witness:
  "audit_save False 1000 [] (cleanup_log (req_at 1000) admin 0 0 30) = Inl StorageError \<and>
   logAction False 1000 [] (cleanup_log (req_at 1000) admin 0 0 30) = ([], None) \<and>
   fst (put_status ((req_at 1000)\<lparr>rq_audit_ok := False\<rparr>) admin 7 (status_req ''approved'' None)
          (staff, [report_task], [])) =
   fst (put_status ((req_at 1000)\<lparr>rq_audit_ok := True\<rparr>) admin 7 (status_req ''approved'' None)
          (staff, [report_task], []))"
proof -
  have v: "audit_validate (cleanup_log (req_at 1000) admin 0 0 30)"
    by (rule cleanup_log_valid[where ip = "''10.0.0.7''"]) (simp_all add: req_at_def)
  then have h: "audit_save False 1000 [] (cleanup_log (req_at 1000) admin 0 0 30) = Inl StorageError"
    by (simp add: audit_save_def)
  note c = audit_failure_never_surfaces[where io_ok = False and now = 1000 and store = "[]"
      and d = "cleanup_log (req_at 1000) admin 0 0 30" and e = StorageError
      and rq = "req_at 1000" and actor = admin and taskId = 7
      and sbody = "status_req ''approved'' None" and db = "(staff, [report_task], [])"]
  from c h show ?thesis by blast
qed

end
